theory Spec2Isabelle
  imports Complex_Main "HOL-Library.Sublist"
begin

section \<open>Strings and paths\<close>

text \<open>
  Strings are ASCII byte strings. \<open>str_lower\<close> is Python's \<open>str.lower\<close> on them: the
  letters A to Z are mapped to a to z, every other character is kept.
\<close>

definition ascii_uppercase :: string where
  "ascii_uppercase = ''ABCDEFGHIJKLMNOPQRSTUVWXYZ''"

definition ascii_lowercase :: string where
  "ascii_lowercase = ''abcdefghijklmnopqrstuvwxyz''"

definition lower_char :: "char \<Rightarrow> char" where
  "lower_char c =
     (case map_of (zip ascii_uppercase ascii_lowercase) c of Some d \<Rightarrow> d | None \<Rightarrow> c)"

definition str_lower :: "string \<Rightarrow> string" where
  "str_lower s = map lower_char s"

text \<open>
  A \<open>pathlib.Path\<close> is kept in its parsed form: the final component \<open>path_name\<close> and
  everything before it. The program runs on Windows (it imports \<open>msvcrt\<close>), where both
  the backslash and the slash separate components, so a parsed name holds neither.
\<close>

datatype path = Path (path_parent: string) (path_name: string)

definition path_seps :: "char set" where
  "path_seps = {CHR 0x5C, CHR ''/''}"

definition path_wf :: "path \<Rightarrow> bool" where
  "path_wf p = (set (path_name p) \<inter> path_seps = {})"

text \<open>\<open>str.rfind\<close> for a single character: the last index holding it, if any.\<close>

fun rfind :: "char \<Rightarrow> string \<Rightarrow> nat option" where
  "rfind c [] = None"
| "rfind c (x # xs) =
     (case rfind c xs of
        Some i \<Rightarrow> Some (Suc i)
      | None \<Rightarrow> if x = c then Some 0 else None)"

text \<open>
  \<open>PurePath.suffix\<close>: with \<open>i = name.rfind('.')\<close>, the suffix is \<open>name[i:]\<close> when
  \<open>0 < i < len(name) - 1\<close> and the empty string otherwise.
\<close>

definition path_suffix :: "path \<Rightarrow> string" where
  "path_suffix p =
     (case rfind (CHR ''.'') (path_name p) of
        None \<Rightarrow> []
      | Some i \<Rightarrow>
          if 0 < i \<and> Suc i < length (path_name p) then drop i (path_name p) else [])"

section \<open>Exceptions, log records and external calls\<close>

text \<open>
  An exception is its Python class together with the values interpolated into its message.
  \<open>LibraryError\<close> stands for any other \<open>Exception\<close> raised inside a library call
  (the image library, \<open>subprocess\<close>, \<open>json\<close>, \<open>tempfile\<close>).
\<close>

datatype err_text =
    FfmpegNotFound
  | FfprobeNotFound
  | FfmpegError string
  | FfprobeError string
  | UnsupportedImageOutputFormat string
  | UnsupportedAudioOutputFormat string
  | UnsupportedVideoOutputFormat string
  | UnsupportedInputFormat string
  | VideoDurationExceeds real real
  | InvalidSuffix string
  | EmptyName path

datatype exn =
    ValueError err_text
  | Exception err_text
  | AttributeError
  | KeyError string
  | LibraryError string

type_synonym request = "path \<times> string option"

datatype level = INFO | WARNING | ERROR

datatype log_msg =
    AddedFileToBatch path "string option"
  | UnsupportedFileFormat path
  | ProcessingBatch nat
  | ErrorConverting path exn
  | SuccessfullyConverted nat
  | FailedToConvertFiles nat
  | FailedToConvert path exn
  | Skipping path
  | Converted path path
  | ErrorInAudioConversion exn
  | ErrorGettingVideoDuration exn
  | ConvertedToGif path path
  | ErrorConvertingVideoToGif exn
  | ErrorInVideoConversion exn
  | UsingBundledFfmpeg string
  | UsingFfmpegFromPath string
  | FfmpegBinariesNotFound
  | ErrorFindingFfmpeg exn
  | FfmpegMayNotWork
  | FfmpegVerified string
  | FfmpegVerificationFailed string
  | ErrorVerifyingFfmpeg exn

text \<open>
  Every action on the outside world is recorded, in order: a child process with its
  command line, the image library opening or saving a file, and the creation and removal
  of a temporary directory.
\<close>

datatype call =
    Subprocess "string list"
  | ImageOpen path
  | ImageSave path string "(nat \<times> nat) list option"
  | TempDirCreate
  | TempDirCleanup string
  | MakeDir path

record completed =
  returncode :: int
  stdout :: string
  stderr :: string

record 'w io =
  world :: 'w
  calls :: "call list"
  logged :: "(level \<times> log_msg) list"

definition logging_info :: "log_msg \<Rightarrow> 'w io \<Rightarrow> 'w io" where
  "logging_info m s = s\<lparr>logged := logged s @ [(INFO, m)]\<rparr>"

definition logging_warning :: "log_msg \<Rightarrow> 'w io \<Rightarrow> 'w io" where
  "logging_warning m s = s\<lparr>logged := logged s @ [(WARNING, m)]\<rparr>"

definition logging_error :: "log_msg \<Rightarrow> 'w io \<Rightarrow> 'w io" where
  "logging_error m s = s\<lparr>logged := logged s @ [(ERROR, m)]\<rparr>"

text \<open>
  \<open>PurePath.with_suffix\<close> (Windows flavour): a suffix holding a separator, a non-empty
  suffix not starting with a dot, the suffix \<open>.\<close> alone, and a path with an empty name
  raise \<open>ValueError\<close>; otherwise the old suffix, if any, is replaced.
\<close>

definition with_suffix :: "path \<Rightarrow> string \<Rightarrow> exn + path" where
  "with_suffix p sfx =
     (if set sfx \<inter> path_seps \<noteq> {} then Inl (ValueError (InvalidSuffix sfx))
      else if (sfx \<noteq> [] \<and> hd sfx \<noteq> CHR ''.'') \<or> sfx = ''.''
        then Inl (ValueError (InvalidSuffix sfx))
      else if path_name p = [] then Inl (ValueError (EmptyName p))
      else
        (let old_suffix = path_suffix p in
         if old_suffix = [] then Inr (Path (path_parent p) (path_name p @ sfx))
         else Inr (Path (path_parent p)
                (take (length (path_name p) - length old_suffix) (path_name p) @ sfx))))"

section \<open>The converter object and its environment\<close>

text \<open>
  A \<open>threading.Timer\<close> that has been started: the time at which its interval elapses, and
  its \<open>finished\<close> event, which \<open>cancel()\<close> sets and which the timer thread sets once the
  callback has returned. The callback runs when the interval elapses with the event unset.
\<close>

record timer =
  deadline :: real
  finished :: bool

text \<open>
  The fields of \<open>FileConverter\<close>. \<open>processing_lock\<close> is \<open>True\<close> while the lock is held.
  \<open>batch_timer\<close> refers to a timer object by its position in \<open>timers\<close>, the store of all
  timer objects this converter has started. The format tables and the default formats
  are assigned once in \<open>__init__\<close> and never again; they are the constants below.
\<close>

record converter =
  batch_wait_time :: real
  max_gif_duration :: real
  pending_files :: "request set"
  processing_lock :: bool
  batch_timer :: "nat option"
  timers :: "timer list"
  ffmpeg_bin :: string
  ffprobe_bin :: string
  temp_dir :: path
  lock_file :: path

definition image_formats :: "string set" where
  "image_formats = {''.jpg'', ''.jpeg'', ''.png'', ''.bmp'', ''.gif'', ''.webp'', ''.tiff'', ''.ico''}"

definition audio_formats :: "string set" where
  "audio_formats = {''.mp3'', ''.wav'', ''.ogg'', ''.m4a'', ''.flac'', ''.aac''}"

definition video_formats :: "string set" where
  "video_formats = {''.mp4'', ''.avi'', ''.mkv'', ''.mov'', ''.wmv'', ''.flv'', ''.webm''}"

definition image_format_mapping :: "string \<rightharpoonup> string" where
  "image_format_mapping = map_of
     [(''jpg'', ''JPEG''), (''jpeg'', ''JPEG''), (''png'', ''PNG''), (''bmp'', ''BMP''),
      (''gif'', ''GIF''), (''webp'', ''WEBP''), (''tiff'', ''TIFF''), (''ico'', ''ICO'')]"

definition ico_sizes :: "(nat \<times> nat) list" where
  "ico_sizes = [(16, 16), (32, 32), (48, 48), (64, 64), (128, 128), (256, 256)]"

definition audio_format_mapping :: "string \<rightharpoonup> string" where
  "audio_format_mapping = map_of
     [(''mp3'', ''mp3''), (''wav'', ''wav''), (''ogg'', ''ogg''), (''m4a'', ''m4a''),
      (''flac'', ''flac''), (''aac'', ''aac'')]"

definition video_format_mapping :: "string \<rightharpoonup> string" where
  "video_format_mapping = map_of
     [(''mp4'', ''mp4''), (''avi'', ''avi''), (''mkv'', ''mkv''), (''mov'', ''mov''),
      (''wmv'', ''wmv''), (''flv'', ''flv''), (''webm'', ''webm''), (''gif'', ''gif'')]"

definition supported_formats :: "string set" where
  "supported_formats = image_formats \<union> audio_formats \<union> video_formats"

definition default_format :: string where
  "default_format = ''png''"

definition default_audio_format :: string where
  "default_audio_format = ''mp3''"

definition default_video_format :: string where
  "default_video_format = ''mp4''"

text \<open>
  What the program asks of its surroundings, as functions of the state \<open>'w\<close> of the outside
  world: \<open>subprocess.run\<close> (the flag says whether stdout and stderr are piped), the image
  library on images \<open>'i\<close>, \<open>tempfile.TemporaryDirectory\<close> and its cleanup,
  \<open>str(p.resolve())\<close>, \<open>os.path.join\<close>, the \<open>Path\<close> constructor, the reading of
  \<open>format.duration\<close> from the probe's JSON report, the order in which a set is iterated,
  and what \<open>get_ffmpeg_binary_path\<close> and \<open>__init__\<close> look at on the host.
  The resolved form of a path is taken not to change during a run, and a duration is a
  real number, one of the finite values a float holds. The flag by which
  \<open>run_subprocess_hidden\<close> hides the console window has no part in the model.
\<close>

record ('w, 'i) env =
  subprocess_run :: "string list \<Rightarrow> bool \<Rightarrow> 'w \<Rightarrow> (exn + completed) \<times> 'w"
  resolve_str :: "path \<Rightarrow> string"
  os_path_join :: "string \<Rightarrow> string \<Rightarrow> string"
  path_of_string :: "string \<Rightarrow> path"
  image_open :: "path \<Rightarrow> 'w \<Rightarrow> exn + 'i"
  image_mode :: "'i \<Rightarrow> string"
  image_size :: "'i \<Rightarrow> nat \<times> nat"
  image_convert :: "'i \<Rightarrow> string \<Rightarrow> exn + 'i"
  image_resize :: "'i \<Rightarrow> nat \<times> nat \<Rightarrow> exn + 'i"
  image_save :: "'i \<Rightarrow> path \<Rightarrow> string \<Rightarrow> (nat \<times> nat) list option \<Rightarrow> 'w \<Rightarrow> (exn + unit) \<times> 'w"
  json_duration :: "string \<Rightarrow> exn + real"
  temporary_directory :: "'w \<Rightarrow> (exn + string) \<times> 'w"
  cleanup :: "string \<Rightarrow> 'w \<Rightarrow> (exn + unit) \<times> 'w"
  set_iter :: "request set \<Rightarrow> request list"
  sys_frozen :: bool
  bundle_dir :: string
  path_exists :: "string \<Rightarrow> 'w \<Rightarrow> bool"
  os_name_nt :: bool
  shutil_which :: "string \<Rightarrow> 'w \<Rightarrow> exn + string option"
  gettempdir :: "'w \<Rightarrow> string"
  path_mkdir :: "path \<Rightarrow> 'w \<Rightarrow> (exn + unit) \<times> 'w"

section \<open>Running the external tools\<close>

definition run_subprocess_hidden ::
  "('w, 'i) env \<Rightarrow> string list \<Rightarrow> bool \<Rightarrow> 'w io \<Rightarrow> (exn + completed) \<times> 'w io" where
  "run_subprocess_hidden env cmd piped s =
     (case subprocess_run env cmd piped (world s) of
        (r, w) \<Rightarrow> (r, s\<lparr>world := w, calls := calls s @ [Subprocess cmd]\<rparr>))"

text \<open>The command line \<open>run_ffmpeg_command\<close> builds; \<open>None\<close> and \<open>[]\<close> add no arguments.\<close>

definition ffmpeg_cmd ::
  "('w, 'i) env \<Rightarrow> string \<Rightarrow> path \<Rightarrow> path \<Rightarrow> string list option \<Rightarrow> string list" where
  "ffmpeg_cmd env bin input_path output_path extra_args =
     [bin, ''-i'', resolve_str env input_path]
     @ (case extra_args of None \<Rightarrow> [] | Some args \<Rightarrow> args)
     @ [''-y'', ''-loglevel'', ''error'', ''-hide_banner'', resolve_str env output_path]"

definition run_ffmpeg_command ::
  "('w, 'i) env \<Rightarrow> string \<Rightarrow> path \<Rightarrow> path \<Rightarrow> string list option \<Rightarrow> bool \<Rightarrow> 'w io
     \<Rightarrow> (exn + completed) \<times> 'w io" where
  "run_ffmpeg_command env bin input_path output_path extra_args capture_output s =
     (if bin = [] then (Inl (ValueError FfmpegNotFound), s)
      else
        (case run_subprocess_hidden env
                (ffmpeg_cmd env bin input_path output_path extra_args) capture_output s of
           (Inl e, s1) \<Rightarrow> (Inl e, s1)
         | (Inr result, s1) \<Rightarrow>
             if returncode result \<noteq> 0 \<and> capture_output
             then (Inl (Exception (FfmpegError (stderr result))), s1)
             else (Inr result, s1)))"

definition ffprobe_cmd :: "('w, 'i) env \<Rightarrow> string \<Rightarrow> path \<Rightarrow> string list \<Rightarrow> string list" where
  "ffprobe_cmd env bin input_path probe_args =
     [bin, ''-v'', ''error''] @ probe_args @ [resolve_str env input_path]"

definition run_ffprobe_command ::
  "('w, 'i) env \<Rightarrow> string \<Rightarrow> path \<Rightarrow> string list \<Rightarrow> bool \<Rightarrow> 'w io
     \<Rightarrow> (exn + completed) \<times> 'w io" where
  "run_ffprobe_command env bin input_path probe_args capture_output s =
     (if bin = [] then (Inl (ValueError FfprobeNotFound), s)
      else
        (case run_subprocess_hidden env (ffprobe_cmd env bin input_path probe_args)
                capture_output s of
           (Inl e, s1) \<Rightarrow> (Inl e, s1)
         | (Inr result, s1) \<Rightarrow>
             if returncode result \<noteq> 0 \<and> capture_output
             then (Inl (Exception (FfprobeError (stderr result))), s1)
             else (Inr result, s1)))"

section \<open>The conversion strategies\<close>

text \<open>
  The methods \<open>_convert_image\<close>, \<open>_convert_audio\<close>, \<open>_get_video_duration\<close>,
  \<open>_convert_video_to_gif\<close> and \<open>_convert_video\<close>, named here without the leading
  underscore. A method that returns nothing returns \<open>Inr ()\<close>; a raised exception is \<open>Inl\<close>.
\<close>

fun resize_all :: "('w, 'i) env \<Rightarrow> 'i \<Rightarrow> (nat \<times> nat) list \<Rightarrow> exn + 'i list" where
  "resize_all env img [] = Inr []"
| "resize_all env img (sz # sizes) =
     (case image_resize env img sz of
        Inl e \<Rightarrow> Inl e
      | Inr resized \<Rightarrow>
          (case resize_all env img sizes of
             Inl e \<Rightarrow> Inl e
           | Inr images \<Rightarrow> Inr (resized # images)))"

definition img_save ::
  "('w, 'i) env \<Rightarrow> 'i \<Rightarrow> path \<Rightarrow> string \<Rightarrow> (nat \<times> nat) list option \<Rightarrow> 'w io
     \<Rightarrow> (exn + unit) \<times> 'w io" where
  "img_save env img output_path fmt sizes s =
     (case image_save env img output_path fmt sizes (world s) of
        (r, w) \<Rightarrow> (r, s\<lparr>world := w, calls := calls s @ [ImageSave output_path fmt sizes]\<rparr>))"

definition convert_image ::
  "('w, 'i) env \<Rightarrow> converter \<Rightarrow> path \<Rightarrow> path \<Rightarrow> string \<Rightarrow> 'w io \<Rightarrow> (exn + unit) \<times> 'w io" where
  "convert_image env self input_path output_path output_format s =
     (case image_format_mapping output_format of
        None \<Rightarrow> (Inl (KeyError output_format), s)
      | Some pil_format \<Rightarrow>
          (let s1 = s\<lparr>calls := calls s @ [ImageOpen input_path]\<rparr> in
           case image_open env input_path (world s) of
             Inl e \<Rightarrow> (Inl e, s1)
           | Inr img \<Rightarrow>
               if pil_format = ''ICO'' then
                 (case (if image_mode env img \<noteq> ''RGBA'' then image_convert env img ''RGBA''
                        else Inr img) of
                    Inl e \<Rightarrow> (Inl e, s1)
                  | Inr img1 \<Rightarrow>
                      (case resize_all env img1 ico_sizes of
                         Inl e \<Rightarrow> (Inl e, s1)
                       | Inr images \<Rightarrow>
                           (case img_save env img1 output_path pil_format
                                   (Some (map (image_size env) images)) s1 of
                              (Inl e, s2) \<Rightarrow> (Inl e, s2)
                            | (Inr u, s2) \<Rightarrow>
                                (Inr (), logging_info (Converted input_path output_path) s2))))
               else
                 (case (if pil_format = ''JPEG'' \<and> image_mode env img \<in> {''RGBA'', ''LA''}
                        then image_convert env img ''RGB'' else Inr img) of
                    Inl e \<Rightarrow> (Inl e, s1)
                  | Inr img1 \<Rightarrow>
                      (case img_save env img1 output_path pil_format None s1 of
                         (Inl e, s2) \<Rightarrow> (Inl e, s2)
                       | (Inr u, s2) \<Rightarrow>
                           (Inr (), logging_info (Converted input_path output_path) s2)))))"

definition convert_audio ::
  "('w, 'i) env \<Rightarrow> converter \<Rightarrow> path \<Rightarrow> path \<Rightarrow> string \<Rightarrow> 'w io \<Rightarrow> (exn + unit) \<times> 'w io" where
  "convert_audio env self input_path output_path output_format s =
     (case run_ffmpeg_command env (ffmpeg_bin self) input_path output_path None True s of
        (Inl e, s1) \<Rightarrow> (Inl e, logging_error (ErrorInAudioConversion e) s1)
      | (Inr result, s1) \<Rightarrow> (Inr (), logging_info (Converted input_path output_path) s1))"

definition probe_args :: "string list" where
  "probe_args = [''-show_entries'', ''format=duration'', ''-of'', ''json'']"

definition get_video_duration ::
  "('w, 'i) env \<Rightarrow> converter \<Rightarrow> path \<Rightarrow> 'w io \<Rightarrow> (exn + real) \<times> 'w io" where
  "get_video_duration env self input_path s =
     (case run_ffprobe_command env (ffprobe_bin self) input_path probe_args True s of
        (Inl e, s1) \<Rightarrow> (Inl e, logging_error (ErrorGettingVideoDuration e) s1)
      | (Inr result, s1) \<Rightarrow>
          (case json_duration env (stdout result) of
             Inl e \<Rightarrow> (Inl e, logging_error (ErrorGettingVideoDuration e) s1)
           | Inr duration \<Rightarrow> (Inr duration, s1)))"

definition palette_args :: "string list" where
  "palette_args = [''-vf'', ''fps=10,scale=480:-1:flags=lanczos,palettegen'']"

definition gif_args :: "string \<Rightarrow> string list" where
  "gif_args palette_path =
     [''-i'', palette_path,
      ''-filter_complex'', ''fps=10,scale=480:-1:flags=lanczos[x];[x][1:v]paletteuse'']"

text \<open>The body of the \<open>with tempfile.TemporaryDirectory() as temp_dir\<close> block.\<close>

definition gif_passes ::
  "('w, 'i) env \<Rightarrow> converter \<Rightarrow> path \<Rightarrow> path \<Rightarrow> string \<Rightarrow> 'w io \<Rightarrow> (exn + unit) \<times> 'w io" where
  "gif_passes env self input_path output_path tmp s =
     (let palette_path = os_path_join env tmp ''palette.png'' in
      case run_ffmpeg_command env (ffmpeg_bin self) input_path
             (path_of_string env palette_path) (Some palette_args) True s of
        (Inl e, s1) \<Rightarrow> (Inl e, s1)
      | (Inr r1, s1) \<Rightarrow>
          (case run_ffmpeg_command env (ffmpeg_bin self) input_path output_path
                  (Some (gif_args palette_path)) True s1 of
             (Inl e, s2) \<Rightarrow> (Inl e, s2)
           | (Inr r2, s2) \<Rightarrow> (Inr (), logging_info (ConvertedToGif input_path output_path) s2)))"

text \<open>
  The context manager creates the directory on entry and removes it on exit, whichever way
  the block is left; an exception raised by the removal replaces the block's outcome.
\<close>

definition convert_video_to_gif ::
  "('w, 'i) env \<Rightarrow> converter \<Rightarrow> path \<Rightarrow> path \<Rightarrow> 'w io \<Rightarrow> (exn + unit) \<times> 'w io" where
  "convert_video_to_gif env self input_path output_path s =
     (case
        (case temporary_directory env (world s) of
           (Inl e, w) \<Rightarrow> (Inl e, s\<lparr>world := w, calls := calls s @ [TempDirCreate]\<rparr>)
         | (Inr tmp, w) \<Rightarrow>
             (case gif_passes env self input_path output_path tmp
                     (s\<lparr>world := w, calls := calls s @ [TempDirCreate]\<rparr>) of
                (r, s2) \<Rightarrow>
                  (case cleanup env tmp (world s2) of
                     (c, w3) \<Rightarrow>
                       (case c of Inl e \<Rightarrow> Inl e | Inr u \<Rightarrow> r,
                        s2\<lparr>world := w3, calls := calls s2 @ [TempDirCleanup tmp]\<rparr>))))
      of
        (Inl e, s4) \<Rightarrow> (Inl e, logging_error (ErrorConvertingVideoToGif e) s4)
      | (Inr u, s4) \<Rightarrow> (Inr u, s4))"

definition video_extra_args :: "string \<Rightarrow> string list" where
  "video_extra_args output_format =
     (if output_format \<in> {''mp4'', ''mov''}
        then [''-c:v'', ''libx264'', ''-c:a'', ''aac'', ''-preset'', ''medium'', ''-crf'', ''23'']
      else if output_format = ''webm''
        then [''-c:v'', ''libvpx-vp9'', ''-c:a'', ''libopus'', ''-crf'', ''30'', ''-b:v'', ''0'']
      else [])"

definition convert_video ::
  "('w, 'i) env \<Rightarrow> converter \<Rightarrow> path \<Rightarrow> path \<Rightarrow> string \<Rightarrow> 'w io \<Rightarrow> (exn + unit) \<times> 'w io" where
  "convert_video env self input_path output_path output_format s =
     (case
        (if output_format = ''gif'' then
           (case get_video_duration env self input_path s of
              (Inl e, s1) \<Rightarrow> (Inl e, s1)
            | (Inr duration, s1) \<Rightarrow>
                if duration > max_gif_duration self
                then (Inl (ValueError (VideoDurationExceeds duration (max_gif_duration self))), s1)
                else convert_video_to_gif env self input_path output_path s1)
         else
           (case run_ffmpeg_command env (ffmpeg_bin self) input_path output_path
                   (Some (video_extra_args output_format)) True s of
              (Inl e, s1) \<Rightarrow> (Inl e, s1)
            | (Inr result, s1) \<Rightarrow> (Inr (), logging_info (Converted input_path output_path) s1)))
      of
        (Inl e, s2) \<Rightarrow> (Inl e, logging_error (ErrorInVideoConversion e) s2)
      | (Inr u, s2) \<Rightarrow> (Inr u, s2))"

section \<open>Dispatch: \<open>convert_file\<close>\<close>

text \<open>Python's truth value of an optional string: \<open>None\<close> and the empty string are false.\<close>

definition falsy :: "string option \<Rightarrow> bool" where
  "falsy output_format = (case output_format of None \<Rightarrow> True | Some f \<Rightarrow> f = [])"

text \<open>
  The choice of the default format: the \<open>if not output_format\<close> block. With an
  extension of none of the three classes the variable keeps the value it was given.
\<close>

definition resolve_output_format :: "path \<Rightarrow> string option \<Rightarrow> string option" where
  "resolve_output_format file_path output_format =
     (if falsy output_format then
        (if str_lower (path_suffix file_path) \<in> image_formats then Some default_format
         else if str_lower (path_suffix file_path) \<in> audio_formats then Some default_audio_format
         else if str_lower (path_suffix file_path) \<in> video_formats then Some default_video_format
         else output_format)
      else output_format)"

text \<open>
  \<open>None.lower()\<close> raises \<open>AttributeError\<close>. Whatever is raised inside the \<open>try\<close> block is
  logged and raised again.
\<close>

definition convert_file ::
  "('w, 'i) env \<Rightarrow> converter \<Rightarrow> path \<Rightarrow> string option \<Rightarrow> 'w io \<Rightarrow> (exn + unit) \<times> 'w io" where
  "convert_file env self file_path output_format s =
     (case
        (let input_format = drop 1 (str_lower (path_suffix file_path)) in
         case resolve_output_format file_path output_format of
           None \<Rightarrow> (Inl AttributeError, s)
         | Some fmt \<Rightarrow>
             (let output_format = str_lower fmt in
              case with_suffix file_path (CHR ''.'' # output_format) of
                Inl e \<Rightarrow> (Inl e, s)
              | Inr output_path \<Rightarrow>
                  if input_format = output_format
                    then (Inr (), logging_info (Skipping file_path) s)
                  else if str_lower (path_suffix file_path) \<in> image_formats then
                    (if image_format_mapping output_format = None
                     then (Inl (ValueError (UnsupportedImageOutputFormat output_format)), s)
                     else convert_image env self file_path output_path output_format s)
                  else if str_lower (path_suffix file_path) \<in> audio_formats then
                    (if audio_format_mapping output_format = None
                     then (Inl (ValueError (UnsupportedAudioOutputFormat output_format)), s)
                     else convert_audio env self file_path output_path output_format s)
                  else if str_lower (path_suffix file_path) \<in> video_formats then
                    (if video_format_mapping output_format = None
                     then (Inl (ValueError (UnsupportedVideoOutputFormat output_format)), s)
                     else convert_video env self file_path output_path output_format s)
                  else (Inl (ValueError (UnsupportedInputFormat input_format)), s)))
      of
        (Inl e, s1) \<Rightarrow> (Inl e, logging_error (FailedToConvert file_path e) s1)
      | (Inr u, s1) \<Rightarrow> (Inr u, s1))"

section \<open>The batch: \<open>add_file\<close> and \<open>process_batch\<close>\<close>

text \<open>
  \<open>with self.processing_lock\<close>: a thread that finds the lock held waits, so a call made in
  such a state does not return; that is the result \<open>None\<close>.
\<close>

definition acquire :: "converter \<Rightarrow> converter option" where
  "acquire self = (if processing_lock self then None else Some (self\<lparr>processing_lock := True\<rparr>))"

definition release :: "converter \<Rightarrow> converter" where
  "release self = self\<lparr>processing_lock := False\<rparr>"

text \<open>Setting the \<open>finished\<close> event of the timer object at position \<open>i\<close>.\<close>

definition finish_timer :: "nat \<Rightarrow> converter \<Rightarrow> converter" where
  "finish_timer i self =
     (if i < length (timers self)
      then self\<lparr>timers := (timers self)[i := (timers self ! i)\<lparr>finished := True\<rparr>]\<rparr>
      else self)"

text \<open>
  The body of \<open>add_file\<close>, run with the lock held at time \<open>now\<close>: the new timer's interval
  elapses at \<open>now + batch_wait_time\<close>.
\<close>

definition add_file_locked ::
  "real \<Rightarrow> path \<Rightarrow> string option \<Rightarrow> converter \<times> 'w io \<Rightarrow> converter \<times> 'w io" where
  "add_file_locked now file_path output_format st =
     (case st of (self, s) \<Rightarrow>
        if str_lower (path_suffix file_path) \<in> supported_formats then
          (let self1 = self\<lparr>pending_files := insert (file_path, output_format) (pending_files self)\<rparr>;
               s1 = logging_info (AddedFileToBatch file_path output_format) s;
               self2 = (case batch_timer self1 of None \<Rightarrow> self1 | Some i \<Rightarrow> finish_timer i self1);
               self3 = self2\<lparr>batch_timer := Some (length (timers self2)),
                              timers := timers self2
                                @ [\<lparr>deadline = now + batch_wait_time self2, finished = False\<rparr>]\<rparr>
           in (self3, s1))
        else (self, logging_warning (UnsupportedFileFormat file_path) s))"

definition add_file ::
  "real \<Rightarrow> path \<Rightarrow> string option \<Rightarrow> converter \<times> 'w io \<Rightarrow> (converter \<times> 'w io) option" where
  "add_file now file_path output_format st =
     (case st of (self, s) \<Rightarrow>
        (case acquire self of
           None \<Rightarrow> None
         | Some self1 \<Rightarrow>
             (case add_file_locked now file_path output_format (self1, s) of
                (self2, s2) \<Rightarrow> Some (release self2, s2))))"

text \<open>The \<open>for\<close> loop of \<open>process_batch\<close> with its two counters.\<close>

fun process_items ::
  "('w, 'i) env \<Rightarrow> converter \<Rightarrow> request list \<Rightarrow> nat \<times> nat \<Rightarrow> 'w io \<Rightarrow> (nat \<times> nat) \<times> 'w io" where
  "process_items env self [] counts s = (counts, s)"
| "process_items env self ((file_path, format_override) # rest) (success_count, fail_count) s =
     (case convert_file env self file_path format_override s of
        (Inr u, s1) \<Rightarrow> process_items env self rest (success_count + 1, fail_count) s1
      | (Inl e, s1) \<Rightarrow>
          process_items env self rest (success_count, fail_count + 1)
            (logging_error (ErrorConverting file_path e) s1))"

definition report_counts :: "nat \<times> nat \<Rightarrow> 'w io \<Rightarrow> 'w io" where
  "report_counts counts s =
     (case counts of (success_count, fail_count) \<Rightarrow>
        (let s1 = (if success_count > 0
                   then logging_info (SuccessfullyConverted success_count) s else s)
         in if fail_count > 0 then logging_warning (FailedToConvertFiles fail_count) s1 else s1))"

text \<open>
  The start of a pass: the size of the batch is logged, the pending set is copied into
  \<open>files_to_process\<close> and cleared.
\<close>

definition capture_batch :: "converter \<times> 'w io \<Rightarrow> request set \<times> converter \<times> 'w io" where
  "capture_batch st =
     (case st of (self, s) \<Rightarrow>
        (pending_files self,
         self\<lparr>pending_files := {}\<rparr>,
         logging_info (ProcessingBatch (card (pending_files self))) s))"

text \<open>
  The body of \<open>process_batch\<close>, all of it inside the \<open>with self.processing_lock\<close> block:
  the capture, the loop over the captured set and the two reports.
\<close>

definition process_batch_locked ::
  "('w, 'i) env \<Rightarrow> converter \<times> 'w io \<Rightarrow> converter \<times> 'w io" where
  "process_batch_locked env st =
     (if pending_files (fst st) = {} then st
      else
        (case capture_batch st of
           (files_to_process, self1, s1) \<Rightarrow>
             (case process_items env self1 (set_iter env files_to_process) (0, 0) s1 of
                (counts, s2) \<Rightarrow> (self1, report_counts counts s2))))"

definition process_batch ::
  "('w, 'i) env \<Rightarrow> converter \<times> 'w io \<Rightarrow> (converter \<times> 'w io) option" where
  "process_batch env st =
     (case st of (self, s) \<Rightarrow>
        (case acquire self of
           None \<Rightarrow> None
         | Some self1 \<Rightarrow>
             (case process_batch_locked env (self1, s) of
                (self2, s2) \<Rightarrow> Some (release self2, s2))))"

section \<open>A pass, step by step\<close>

text \<open>
  \<open>process_batch\<close> again, one step at a time, so that the states between two items of
  the loop can be looked at and calls of other threads put between them. A pass is
  \<open>Waiting\<close> before the \<open>with self.processing_lock\<close> statement, \<open>Looping\<close> inside the \<open>for\<close>
  loop, with the items still to convert and the two counters, and \<open>Finished\<close> after the
  \<open>with\<close> block. The first step takes the lock and either returns at once, when nothing is
  pending, or logs the size of the batch, copies the pending set and clears it; every
  step of the loop converts one item; the step that finds no item left reports the two
  counts and leaves the \<open>with\<close> block, which is the only release of the lock. A pass that
  finds the lock held does not step.
\<close>

datatype pass = Waiting | Looping "request list" "nat \<times> nat" | Finished

fun pass_step ::
  "('w, 'i) env \<Rightarrow> pass \<times> converter \<times> 'w io \<Rightarrow> (pass \<times> converter \<times> 'w io) option" where
  "pass_step env (Waiting, self, s) =
     (case acquire self of
        None \<Rightarrow> None
      | Some self1 \<Rightarrow>
          if pending_files self1 = {} then Some (Finished, release self1, s)
          else
            (case capture_batch (self1, s) of
               (files_to_process, self2, s1) \<Rightarrow>
                 Some (Looping (set_iter env files_to_process) (0, 0), self2, s1)))"
| "pass_step env (Looping ((file_path, format_override) # rest) (success_count, fail_count),
       self, s) =
     (case convert_file env self file_path format_override s of
        (Inr u, s1) \<Rightarrow> Some (Looping rest (success_count + 1, fail_count), self, s1)
      | (Inl e, s1) \<Rightarrow>
          Some (Looping rest (success_count, fail_count + 1), self,
                logging_error (ErrorConverting file_path e) s1))"
| "pass_step env (Looping [] counts, self, s) =
     Some (Finished, release self, report_counts counts s)"
| "pass_step env (Finished, self, s) = Some (Finished, self, s)"

text \<open>
  What the threads of the process do: the pass takes one step, or another thread calls
  \<open>add_file\<close> at time \<open>now\<close>. A call that finds the lock held waits: it takes no step.
\<close>

datatype action = PassStep | AddFile real path "string option"

fun sys_step ::
  "('w, 'i) env \<Rightarrow> action \<Rightarrow> pass \<times> converter \<times> 'w io
     \<Rightarrow> (pass \<times> converter \<times> 'w io) option" where
  "sys_step env PassStep cfg = pass_step env cfg"
| "sys_step env (AddFile now file_path output_format) (pc, self, s) =
     (case add_file now file_path output_format (self, s) of
        None \<Rightarrow> None
      | Some (self1, s1) \<Rightarrow> Some (pc, self1, s1))"

text \<open>
  A schedule is a list of such actions, taken in order; an action that cannot take its
  step leaves the configuration as it is.
\<close>

fun run_schedule ::
  "('w, 'i) env \<Rightarrow> action list \<Rightarrow> pass \<times> converter \<times> 'w io \<Rightarrow> pass \<times> converter \<times> 'w io" where
  "run_schedule env [] cfg = cfg"
| "run_schedule env (a # rest) cfg =
     run_schedule env rest (case sys_step env a cfg of None \<Rightarrow> cfg | Some cfg1 \<Rightarrow> cfg1)"

section \<open>Timer threads\<close>

text \<open>
  \<open>threading.Timer.run\<close> for the timer at position \<open>i\<close>, once its interval has elapsed with
  \<open>finished\<close> unset: the callback \<open>process_batch\<close> runs, then \<open>finished\<close> is set. The batch
  the callback captures, when there is one, is returned for inspection.
\<close>

definition timer_run ::
  "('w, 'i) env \<Rightarrow> nat \<Rightarrow> converter \<times> 'w io \<Rightarrow> (request set list \<times> converter \<times> 'w io) option" where
  "timer_run env i st =
     (case process_batch env st of
        None \<Rightarrow> None
      | Some (self1, s1) \<Rightarrow>
          Some (if pending_files (fst st) = {} then [] else [pending_files (fst st)],
                finish_timer i self1, s1))"

fun run_timers ::
  "('w, 'i) env \<Rightarrow> (timer \<Rightarrow> bool) \<Rightarrow> nat list \<Rightarrow> converter \<times> 'w io
     \<Rightarrow> (request set list \<times> converter \<times> 'w io) option" where
  "run_timers env due [] st = Some ([], st)"
| "run_timers env due (i # rest) st =
     (if i < length (timers (fst st)) \<and> due (timers (fst st) ! i) then
        (case timer_run env i st of
           None \<Rightarrow> None
         | Some (bs, st1) \<Rightarrow>
             (case run_timers env due rest st1 of
                None \<Rightarrow> None
              | Some (bs', st2) \<Rightarrow> Some (bs @ bs', st2)))
      else run_timers env due rest st)"

text \<open>
  Time passing up to \<open>now\<close>: every started timer whose interval has elapsed by then, and
  that was not cancelled, runs. A pass over a batch is taken to be over before the next
  call arrives, and a timer elapsing at the very instant of a call runs before it.
\<close>

definition elapse ::
  "('w, 'i) env \<Rightarrow> real \<Rightarrow> converter \<times> 'w io
     \<Rightarrow> (request set list \<times> converter \<times> 'w io) option" where
  "elapse env now st =
     run_timers env (\<lambda>tm. \<not> finished tm \<and> deadline tm \<le> now) [0..<length (timers (fst st))] st"

text \<open>After the last call every timer still waiting runs: timer threads are not daemons.\<close>

definition drain ::
  "('w, 'i) env \<Rightarrow> converter \<times> 'w io \<Rightarrow> (request set list \<times> converter \<times> 'w io) option" where
  "drain env st = run_timers env (\<lambda>tm. \<not> finished tm) [0..<length (timers (fst st))] st"

text \<open>
  A run of the converter against a caller: \<open>add_file\<close> calls, each with the time at which
  its body runs. The result lists the batches that fired, in order.
\<close>

fun timeline ::
  "('w, 'i) env \<Rightarrow> (real \<times> path \<times> string option) list \<Rightarrow> converter \<times> 'w io
     \<Rightarrow> (request set list \<times> converter \<times> 'w io) option" where
  "timeline env [] st = drain env st"
| "timeline env ((t, file_path, output_format) # evs) st =
     (case elapse env t st of
        None \<Rightarrow> None
      | Some (bs, st1) \<Rightarrow>
          (case add_file t file_path output_format st1 of
             None \<Rightarrow> None
           | Some st2 \<Rightarrow>
               (case timeline env evs st2 of
                  None \<Rightarrow> None
                | Some (bs', st3) \<Rightarrow> Some (bs @ bs', st3))))"

section \<open>Construction and the command line\<close>

text \<open>
  \<open>get_ffmpeg_binary_path\<close>. The module globals it also assigns are read nowhere else.
\<close>

definition get_ffmpeg_binary_path ::
  "('w, 'i) env \<Rightarrow> 'w io \<Rightarrow> (string \<times> string) \<times> 'w io" where
  "get_ffmpeg_binary_path env s =
     (let ffmpeg_bundled = os_path_join env (bundle_dir env) ''ffmpeg.exe'';
          ffprobe_bundled = os_path_join env (bundle_dir env) ''ffprobe.exe''
      in
        if sys_frozen env \<and> path_exists env ffmpeg_bundled (world s)
           \<and> path_exists env ffprobe_bundled (world s)
        then ((ffmpeg_bundled, ffprobe_bundled), logging_info (UsingBundledFfmpeg ffmpeg_bundled) s)
        else
          (case shutil_which env (if os_name_nt env then ''ffmpeg.exe'' else ''ffmpeg'') (world s) of
             Inl e \<Rightarrow> (([], []), logging_error (ErrorFindingFfmpeg e) s)
           | Inr f \<Rightarrow>
               (case shutil_which env (if os_name_nt env then ''ffprobe.exe'' else ''ffprobe'')
                       (world s) of
                  Inl e \<Rightarrow> (([], []), logging_error (ErrorFindingFfmpeg e) s)
                | Inr p \<Rightarrow>
                    (case (f, p) of
                       (Some fb, Some pb) \<Rightarrow>
                         if fb \<noteq> [] \<and> pb \<noteq> []
                         then ((fb, pb), logging_info (UsingFfmpegFromPath fb) s)
                         else (([], []), logging_error FfmpegBinariesNotFound s)
                     | _ \<Rightarrow> (([], []), logging_error FfmpegBinariesNotFound s)))))"

text \<open>
  \<open>FileConverter.__init__\<close>; an argument left out is \<open>None\<close> and takes the default of the
  signature. The file lock object, which nothing acquires, is left out.
\<close>

definition FileConverter_init ::
  "('w, 'i) env \<Rightarrow> real option \<Rightarrow> real option \<Rightarrow> 'w io \<Rightarrow> (exn + converter) \<times> 'w io" where
  "FileConverter_init env batch_wait_time_arg max_gif_duration_arg s =
     (case get_ffmpeg_binary_path env s of
        ((fbin, pbin), s1) \<Rightarrow>
          (let s2 =
                 (if fbin = [] \<or> pbin = [] then logging_error FfmpegMayNotWork s1
                  else
                    (case run_subprocess_hidden env [fbin, ''-version''] True s1 of
                       (Inl e, s') \<Rightarrow> logging_error (ErrorVerifyingFfmpeg e) s'
                     | (Inr result, s') \<Rightarrow>
                         if returncode result = 0
                         then logging_info (FfmpegVerified (stdout result)) s'
                         else logging_error (FfmpegVerificationFailed (stderr result)) s'));
               tdir = Path (gettempdir env (world s2)) ''file_converter''
           in
             (case path_mkdir env tdir (world s2) of
                (Inl e, w) \<Rightarrow> (Inl e, s2\<lparr>world := w, calls := calls s2 @ [MakeDir tdir]\<rparr>)
              | (Inr u, w) \<Rightarrow>
                  (Inr \<lparr>batch_wait_time =
                          (case batch_wait_time_arg of None \<Rightarrow> 1 / 10 | Some v \<Rightarrow> v),
                        max_gif_duration =
                          (case max_gif_duration_arg of None \<Rightarrow> 30 | Some v \<Rightarrow> v),
                        pending_files = {},
                        processing_lock = False,
                        batch_timer = None,
                        timers = [],
                        ffmpeg_bin = fbin,
                        ffprobe_bin = pbin,
                        temp_dir = tdir,
                        lock_file =
                          Path (os_path_join env (path_parent tdir) (path_name tdir))
                            ''converter.lock''\<rparr>,
                   s2\<lparr>world := w, calls := calls s2 @ [MakeDir tdir]\<rparr>))))"

text \<open>
  \<open>parse_args\<close> on a command line already split into its parts: the files, the value of
  \<open>-f\<close> and the value of \<open>--max-gif-duration\<close>, each option \<open>None\<close> when absent.
\<close>

record args =
  args_files :: "string list"
  args_format :: "string option"
  args_max_gif_duration :: real

definition parse_args :: "string list \<Rightarrow> string option \<Rightarrow> real option \<Rightarrow> args" where
  "parse_args fs fmt maxd =
     \<lparr>args_files = fs, args_format = fmt,
      args_max_gif_duration = (case maxd of None \<Rightarrow> 15 | Some v \<Rightarrow> v)\<rparr>"

text \<open>
  \<open>main\<close>: the converter is built with the parsed maximum, then every file is added; the
  \<open>k\<close>-th call runs at time \<open>call_times ! k\<close>. Sleeping and leaving let the timers run.
\<close>

definition main ::
  "('w, 'i) env \<Rightarrow> args \<Rightarrow> real list \<Rightarrow> 'w io
     \<Rightarrow> (exn + request set list \<times> converter \<times> 'w io) option" where
  "main env a call_times s =
     (case FileConverter_init env None (Some (args_max_gif_duration a)) s of
        (Inl e, s1) \<Rightarrow> Some (Inl e)
      | (Inr self, s1) \<Rightarrow>
          map_option Inr
            (timeline env
               (map (\<lambda>(t, f). (t, path_of_string env f, args_format a)) (zip call_times (args_files a)))
               (self, s1)))"

section \<open>Media classes\<close>

text \<open>
  The class branch \<open>convert_file\<close> takes for a path, with the table and the default format
  that branch uses and the error it raises for a format outside the table.
\<close>

datatype media_class = ImageClass | AudioClass | VideoClass

definition media_class_of :: "path \<Rightarrow> media_class option" where
  "media_class_of file_path =
     (if str_lower (path_suffix file_path) \<in> image_formats then Some ImageClass
      else if str_lower (path_suffix file_path) \<in> audio_formats then Some AudioClass
      else if str_lower (path_suffix file_path) \<in> video_formats then Some VideoClass
      else None)"

definition format_mapping :: "media_class \<Rightarrow> string \<rightharpoonup> string" where
  "format_mapping c =
     (case c of ImageClass \<Rightarrow> image_format_mapping | AudioClass \<Rightarrow> audio_format_mapping
      | VideoClass \<Rightarrow> video_format_mapping)"

definition default_format_of :: "media_class \<Rightarrow> string" where
  "default_format_of c =
     (case c of ImageClass \<Rightarrow> default_format | AudioClass \<Rightarrow> default_audio_format
      | VideoClass \<Rightarrow> default_video_format)"

definition unsupported_output_format :: "media_class \<Rightarrow> string \<Rightarrow> err_text" where
  "unsupported_output_format c f =
     (case c of ImageClass \<Rightarrow> UnsupportedImageOutputFormat f
      | AudioClass \<Rightarrow> UnsupportedAudioOutputFormat f
      | VideoClass \<Rightarrow> UnsupportedVideoOutputFormat f)"

text \<open>A child process that was started with piped output and left with exit code 0.\<close>

definition pass_ok :: "('w, 'i) env \<Rightarrow> string list \<Rightarrow> 'w \<Rightarrow> bool" where
  "pass_ok env cmd w =
     (case fst (subprocess_run env cmd True w) of
        Inr result \<Rightarrow> returncode result = 0
      | Inl e \<Rightarrow> False)"

text \<open>
  What each call of \<open>convert_file\<close> made by the loop of \<open>process_batch\<close> returned, in the
  order of the calls.
\<close>

fun convert_results ::
  "('w, 'i) env \<Rightarrow> converter \<Rightarrow> request list \<Rightarrow> 'w io \<Rightarrow> (exn + unit) list" where
  "convert_results env self [] s = []"
| "convert_results env self ((file_path, format_override) # rest) s =
     (case convert_file env self file_path format_override s of
        (Inr u, s1) \<Rightarrow> Inr u # convert_results env self rest s1
      | (Inl e, s1) \<Rightarrow>
          Inl e # convert_results env self rest (logging_error (ErrorConverting file_path e) s1))"

section \<open>A concrete environment\<close>

text \<open>
  An environment on which the definitions can be run: the transcoder fails on the file
  \<open>bad.wav\<close> and succeeds otherwise, the probe reports 20 seconds for \<open>long.mov\<close> and 10
  seconds for any other file, the image library and the temporary directory never fail.
\<close>

definition demo_requests :: "request list" where
  "demo_requests =
     [(Path [] ''photo.png'', None), (Path [] ''a.wav'', None), (Path [] ''bad.wav'', None),
      (Path [] ''b.wav'', None), (Path [] ''photo.png'', Some ''jpg''),
      (Path [] ''clip.mov'', Some ''gif''), (Path [] ''long.mov'', Some ''gif''),
      (Path [] ''song.mp3'', Some ''xyz'')]"

definition demo_env :: "(unit, unit) env" where
  "demo_env =
     \<lparr>subprocess_run = (\<lambda>cmd piped w.
          (Inr \<lparr>returncode = (if ''bad.wav'' \<in> set cmd then 1 else 0),
                stdout = (if ''long.mov'' \<in> set cmd then ''20'' else ''10''),
                stderr = ''failed''\<rparr>, w)),
      resolve_str = path_name,
      os_path_join = (\<lambda>a b. a @ ''/'' @ b),
      path_of_string = Path [],
      image_open = (\<lambda>p w. Inr ()),
      image_mode = (\<lambda>i. ''RGB''),
      image_size = (\<lambda>i. (1, 1)),
      image_convert = (\<lambda>i m. Inr i),
      image_resize = (\<lambda>i sz. Inr i),
      image_save = (\<lambda>i p f sizes w. (Inr (), w)),
      json_duration = (\<lambda>out. if out = ''20'' then Inr 20
                              else if out = ''10'' then Inr 10
                              else Inl (LibraryError ''json'')),
      temporary_directory = (\<lambda>w. (Inr ''tmp'', w)),
      cleanup = (\<lambda>d w. (Inr (), w)),
      set_iter = (\<lambda>S. filter (\<lambda>r. r \<in> S) demo_requests),
      sys_frozen = False,
      bundle_dir = [],
      path_exists = (\<lambda>p w. False),
      os_name_nt = True,
      shutil_which = (\<lambda>n w. Inr (Some n)),
      gettempdir = (\<lambda>w. ''tmp''),
      path_mkdir = (\<lambda>p w. (Inr (), w))\<rparr>"

definition demo_io :: "unit io" where
  "demo_io = \<lparr>world = (), calls = [], logged = []\<rparr>"

definition demo_converter :: converter where
  "demo_converter =
     \<lparr>batch_wait_time = 1 / 10, max_gif_duration = 15, pending_files = {},
      processing_lock = False, batch_timer = None, timers = [],
      ffmpeg_bin = ''ffmpeg.exe'', ffprobe_bin = ''ffprobe.exe'',
      temp_dir = Path ''tmp'' ''file_converter'',
      lock_file = Path ''tmp/file_converter'' ''converter.lock''\<rparr>"

text \<open>The same converter with three audio files pending.\<close>

definition demo_batch :: converter where
  "demo_batch =
     demo_converter\<lparr>pending_files :=
       {(Path [] ''a.wav'', None), (Path [] ''bad.wav'', None), (Path [] ''b.wav'', None)}\<rparr>"

text \<open>
  A schedule with two calls of \<open>add_file\<close> between the steps of a pass, and the converter
  as it is while the pass over the three audio files is in its loop.
\<close>

definition demo_schedule :: "action list" where
  "demo_schedule =
     [AddFile 0 (Path [] ''photo.png'') None, PassStep,
      AddFile (1 / 100) (Path [] ''photo.png'') None, PassStep]"

definition demo_looping :: converter where
  "demo_looping = demo_batch\<lparr>processing_lock := True, pending_files := {}\<rparr>"




section \<open>Facts about strings, paths and format resolution\<close>

lemma lower_char_unfold:
  "lower_char c =
     (if c = CHR ''A'' then CHR ''a'' else if c = CHR ''B'' then CHR ''b''
      else if c = CHR ''C'' then CHR ''c'' else if c = CHR ''D'' then CHR ''d''
      else if c = CHR ''E'' then CHR ''e'' else if c = CHR ''F'' then CHR ''f''
      else if c = CHR ''G'' then CHR ''g'' else if c = CHR ''H'' then CHR ''h''
      else if c = CHR ''I'' then CHR ''i'' else if c = CHR ''J'' then CHR ''j''
      else if c = CHR ''K'' then CHR ''k'' else if c = CHR ''L'' then CHR ''l''
      else if c = CHR ''M'' then CHR ''m'' else if c = CHR ''N'' then CHR ''n''
      else if c = CHR ''O'' then CHR ''o'' else if c = CHR ''P'' then CHR ''p''
      else if c = CHR ''Q'' then CHR ''q'' else if c = CHR ''R'' then CHR ''r''
      else if c = CHR ''S'' then CHR ''s'' else if c = CHR ''T'' then CHR ''t''
      else if c = CHR ''U'' then CHR ''u'' else if c = CHR ''V'' then CHR ''v''
      else if c = CHR ''W'' then CHR ''w'' else if c = CHR ''X'' then CHR ''x''
      else if c = CHR ''Y'' then CHR ''y'' else if c = CHR ''Z'' then CHR ''z''
      else c)"
  by (simp add: lower_char_def ascii_uppercase_def ascii_lowercase_def)

lemma lower_char_seps: "lower_char c \<in> path_seps \<longleftrightarrow> c \<in> path_seps"
  by (simp add: lower_char_unfold path_seps_def)

lemma str_lower_seps: "set (str_lower s) \<inter> path_seps = {} \<longleftrightarrow> set s \<inter> path_seps = {}"
  by (induction s) (auto simp: str_lower_def lower_char_seps)

lemma str_lower_Nil: "str_lower s = [] \<longleftrightarrow> s = []"
  by (simp add: str_lower_def)

lemma length_str_lower: "length (str_lower s) = length s"
  by (simp add: str_lower_def)

lemma path_suffix_shape:
  "path_suffix p \<noteq> [] \<Longrightarrow>
     \<exists>i. 0 < i \<and> Suc i < length (path_name p) \<and> path_suffix p = drop i (path_name p)"
  by (auto simp: path_suffix_def split: option.splits if_splits)

lemma path_suffix_length: "path_suffix p \<noteq> [] \<Longrightarrow> 2 \<le> length (path_suffix p)"
  using path_suffix_shape [of p] by auto

lemma path_suffix_name: "path_suffix p \<noteq> [] \<Longrightarrow> path_name p \<noteq> []"
  using path_suffix_shape [of p] by auto

lemma path_suffix_seps: "path_wf p \<Longrightarrow> set (path_suffix p) \<inter> path_seps = {}"
proof (cases "path_suffix p = []")
  case True
  then show ?thesis by simp
next
  case False
  then obtain i where "path_suffix p = drop i (path_name p)"
    using path_suffix_shape by blast
  moreover assume "path_wf p"
  ultimately show ?thesis
    using set_drop_subset [of i "path_name p"] by (auto simp: path_wf_def)
qed

lemma with_suffix_ok:
  assumes "set f \<inter> path_seps = {}" and "f \<noteq> []" and "path_name p \<noteq> []"
  shows "\<exists>q. with_suffix p (CHR ''.'' # f) = Inr q"
  using assms by (auto simp: with_suffix_def path_seps_def Let_def)

lemma with_suffix_bad:
  assumes "set f \<inter> path_seps \<noteq> {}"
  shows "with_suffix p (CHR ''.'' # f) = Inl (ValueError (InvalidSuffix (CHR ''.'' # f)))"
  using assms by (auto simp: with_suffix_def path_seps_def)

lemma recognized_suffix_nonempty:
  "str_lower (path_suffix p) \<in> supported_formats \<Longrightarrow> path_suffix p \<noteq> []"
  by (auto simp: supported_formats_def image_formats_def audio_formats_def video_formats_def
      str_lower_def)

lemma media_class_supported:
  "media_class_of p \<noteq> None \<longleftrightarrow> str_lower (path_suffix p) \<in> supported_formats"
  by (auto simp: media_class_of_def supported_formats_def)

lemma resolve_recognized:
  assumes "media_class_of p = Some c"
  shows "resolve_output_format p output_format
           = (if falsy output_format then Some (default_format_of c) else output_format)"
  using assms
  by (auto simp: media_class_of_def resolve_output_format_def default_format_of_def
      split: if_splits)

lemma resolve_recognized_nonempty:
  assumes "media_class_of p = Some c" and "resolve_output_format p output_format = Some fmt"
  shows "fmt \<noteq> []"
  using assms
  by (cases c)
     (auto simp: resolve_recognized falsy_def default_format_of_def default_format_def
        default_audio_format_def default_video_format_def split: if_splits option.splits)

lemma resolve_unrecognized:
  assumes "str_lower (path_suffix p) \<notin> supported_formats"
  shows "resolve_output_format p output_format = output_format"
  using assms by (auto simp: resolve_output_format_def supported_formats_def)

section \<open>Facts about logging, the batch methods and the constructor\<close>

lemma logging_calls [simp]:
  "calls (logging_info m s) = calls s"
  "calls (logging_warning m s) = calls s"
  "calls (logging_error m s) = calls s"
  by (simp_all add: logging_info_def logging_warning_def logging_error_def)

lemma logging_world [simp]:
  "world (logging_info m s) = world s"
  "world (logging_warning m s) = world s"
  "world (logging_error m s) = world s"
  by (simp_all add: logging_info_def logging_warning_def logging_error_def)

lemma video_not_image_audio:
  assumes "x \<in> video_formats"
  shows "x \<notin> image_formats" and "x \<notin> audio_formats" and "x \<noteq> ''.gif''"
  using assms by (auto simp: video_formats_def image_formats_def audio_formats_def)

lemma video_suffix_supported:
  "x \<in> video_formats \<Longrightarrow> x \<in> supported_formats"
  by (simp add: supported_formats_def)

text \<open>A video file asked to become a GIF reaches \<open>convert_video\<close>.\<close>

lemma convert_file_video_gif:
  assumes vid: "str_lower (path_suffix input_path) \<in> video_formats"
    and gif: "str_lower fmt = ''gif''"
  shows "\<exists>output_path. with_suffix input_path ''.gif'' = Inr output_path
           \<and> convert_file env self input_path (Some fmt) s =
               (case convert_video env self input_path output_path ''gif'' s of
                  (Inl e, s1) \<Rightarrow> (Inl e, logging_error (FailedToConvert input_path e) s1)
                | (Inr u, s1) \<Rightarrow> (Inr u, s1))"
proof -
  have ne: "fmt \<noteq> []"
    using gif by (auto simp: str_lower_def)
  have res: "resolve_output_format input_path (Some fmt) = Some fmt"
    using ne by (simp add: resolve_output_format_def falsy_def)
  have name: "path_name input_path \<noteq> []"
    using vid recognized_suffix_nonempty [OF video_suffix_supported [OF vid]] path_suffix_name
    by blast
  have "set ''gif'' \<inter> path_seps = {}"
    by (simp add: path_seps_def)
  then obtain q where q: "with_suffix input_path (CHR ''.'' # ''gif'') = Inr q"
    using with_suffix_ok [of "''gif''" input_path] name by auto
  have differs: "drop (Suc 0) (str_lower (path_suffix input_path)) \<noteq> ''gif''"
    using vid by (auto simp: video_formats_def)
  have tbl: "video_format_mapping ''gif'' = Some ''gif''"
    by (simp add: video_format_mapping_def)
  have "convert_file env self input_path (Some fmt) s =
               (case convert_video env self input_path q ''gif'' s of
                  (Inl e, s1) \<Rightarrow> (Inl e, logging_error (FailedToConvert input_path e) s1)
                | (Inr u, s1) \<Rightarrow> (Inr u, s1))"
    using video_not_image_audio [OF vid] vid differs tbl q
    by (simp add: convert_file_def res gif Let_def)
  with q show ?thesis by auto
qed

lemma run_ffprobe_command_ok:
  assumes "run_ffprobe_command env bin input_path pargs cap s = (Inr r, s1)"
  shows "bin \<noteq> []
         \<and> s1 = s\<lparr>world := snd (subprocess_run env (ffprobe_cmd env bin input_path pargs) cap (world s)),
                  calls := calls s @ [Subprocess (ffprobe_cmd env bin input_path pargs)]\<rparr>"
  using assms
  by (auto simp: run_ffprobe_command_def run_subprocess_hidden_def
      split: if_splits prod.splits sum.splits)

lemma get_video_duration_ok:
  assumes "get_video_duration env self input_path s = (Inr d, s1)"
  shows "ffprobe_bin self \<noteq> []
         \<and> calls s1 = calls s @ [Subprocess (ffprobe_cmd env (ffprobe_bin self) input_path probe_args)]
         \<and> logged s1 = logged s"
  using assms run_ffprobe_command_ok [of env "ffprobe_bin self" input_path probe_args True s]
  by (auto simp: get_video_duration_def split: prod.splits sum.splits)

lemma convert_video_too_long:
  assumes probe: "get_video_duration env self input_path s = (Inr duration, s1)"
    and long: "duration > max_gif_duration self"
  shows "convert_video env self input_path output_path ''gif'' s =
           (Inl (ValueError (VideoDurationExceeds duration (max_gif_duration self))),
            logging_error
              (ErrorInVideoConversion
                 (ValueError (VideoDurationExceeds duration (max_gif_duration self)))) s1)"
  using long by (simp add: convert_video_def probe)

lemma process_batch_locked_fst:
  "fst (process_batch_locked env (self, s)) = self\<lparr>pending_files := {}\<rparr>"
  by (simp add: process_batch_locked_def capture_batch_def split: prod.splits)

lemma process_batch_free:
  assumes "\<not> processing_lock self"
  shows "process_batch env (self, s) =
           Some (self\<lparr>pending_files := {}\<rparr>,
                 snd (process_batch_locked env (self\<lparr>processing_lock := True\<rparr>, s)))"
proof -
  obtain a b where ab: "process_batch_locked env (self\<lparr>processing_lock := True\<rparr>, s) = (a, b)"
    by (cases "process_batch_locked env (self\<lparr>processing_lock := True\<rparr>, s)")
  have "a = self\<lparr>processing_lock := True, pending_files := {}\<rparr>"
    using process_batch_locked_fst [of env "self\<lparr>processing_lock := True\<rparr>" s] ab by simp
  then show ?thesis
    using assms by (simp add: process_batch_def acquire_def ab release_def)
qed

lemma add_file_free:
  assumes "\<not> processing_lock self"
    and "str_lower (path_suffix file_path) \<in> supported_formats"
  shows "add_file now file_path output_format (self, s) =
           Some (self\<lparr>pending_files := insert (file_path, output_format) (pending_files self),
                      batch_timer := Some (length (timers self)),
                      timers :=
                        (case batch_timer self of None \<Rightarrow> timers self
                         | Some i \<Rightarrow> timers (finish_timer i self))
                        @ [\<lparr>deadline = now + batch_wait_time self, finished = False\<rparr>]\<rparr>,
                 logging_info (AddedFileToBatch file_path output_format) s)"
  using assms
  by (cases "batch_timer self")
     (simp_all add: add_file_def acquire_def add_file_locked_def release_def Let_def
        finish_timer_def)


text \<open>The fields no method assigns after construction.\<close>

lemma finish_timer_fields [simp]:
  "max_gif_duration (finish_timer i self) = max_gif_duration self"
  "batch_wait_time (finish_timer i self) = batch_wait_time self"
  "pending_files (finish_timer i self) = pending_files self"
  "processing_lock (finish_timer i self) = processing_lock self"
  "batch_timer (finish_timer i self) = batch_timer self"
  "length (timers (finish_timer i self)) = length (timers self)"
  by (simp_all add: finish_timer_def)

lemma add_file_max:
  assumes "add_file now p f st = Some st'"
  shows "max_gif_duration (fst st') = max_gif_duration (fst st)"
  using assms
  by (cases st)
     (auto simp: add_file_def acquire_def add_file_locked_def release_def Let_def
        split: if_splits option.splits)

lemma process_batch_max:
  assumes "process_batch env st = Some st'"
  shows "max_gif_duration (fst st') = max_gif_duration (fst st)"
proof (cases st)
  case (Pair self s)
  show ?thesis
  proof (cases "processing_lock self")
    case True
    then show ?thesis using assms Pair by (simp add: process_batch_def acquire_def)
  next
    case False
    then show ?thesis using assms Pair by (auto simp: process_batch_free)
  qed
qed

lemma timer_run_max:
  assumes "timer_run env i st = Some (bs, st')"
  shows "max_gif_duration (fst st') = max_gif_duration (fst st)"
  using assms process_batch_max [of env st]
  by (auto simp: timer_run_def split: option.splits)

lemma run_timers_max:
  assumes "run_timers env due idxs st = Some (bs, st')"
  shows "max_gif_duration (fst st') = max_gif_duration (fst st)"
  using assms
proof (induction idxs arbitrary: st bs)
  case Nil
  then show ?case by simp
next
  case (Cons i rest)
  show ?case
  proof (cases "i < length (timers (fst st)) \<and> due (timers (fst st) ! i)")
    case True
    then obtain b1 st1 b2 where
      r: "timer_run env i st = Some (b1, st1)" and
      q: "run_timers env due rest st1 = Some (b2, st')"
      using Cons.prems by (auto split: option.splits)
    show ?thesis
      using Cons.IH [OF q] timer_run_max [OF r] by simp
  next
    case False
    then have "run_timers env due rest st = Some (bs, st')"
      using Cons.prems by auto
    then show ?thesis by (rule Cons.IH)
  qed
qed

lemma timeline_max:
  assumes "timeline env evs st = Some (bs, st')"
  shows "max_gif_duration (fst st') = max_gif_duration (fst st)"
  using assms
proof (induction evs arbitrary: st bs)
  case Nil
  then show ?case by (simp add: drain_def run_timers_max)
next
  case (Cons ev evs)
  obtain t p f where ev: "ev = (t, p, f)" by (cases ev)
  from Cons.prems obtain b1 st1 st2 b2 where
    e: "elapse env t st = Some (b1, st1)" and
    a: "add_file t p f st1 = Some st2" and
    r: "timeline env evs st2 = Some (b2, st')"
    by (auto simp: ev split: option.splits)
  show ?case
    using Cons.IH [OF r] add_file_max [OF a] run_timers_max [OF e [unfolded elapse_def]]
    by simp
qed

lemma init_defaults:
  assumes "FileConverter_init env bw mg s = (Inr self, s')"
  shows "max_gif_duration self = (case mg of None \<Rightarrow> 30 | Some v \<Rightarrow> v)"
    and "batch_wait_time self = (case bw of None \<Rightarrow> 1 / 10 | Some v \<Rightarrow> v)"
    and "pending_files self = {}" and "\<not> processing_lock self" and "timers self = []"
  using assms
  by (auto simp: FileConverter_init_def Let_def split: prod.splits sum.splits)

lemma main_max:
  assumes "main env (parse_args fs fmt None) call_times s = Some (Inr (bs, self, s'))"
  shows "max_gif_duration self = 15"
proof -
  obtain r s1 where i: "FileConverter_init env None
      (Some (args_max_gif_duration (parse_args fs fmt None))) s = (r, s1)"
    by (cases "FileConverter_init env None
      (Some (args_max_gif_duration (parse_args fs fmt None))) s")
  show ?thesis
  proof (cases r)
    case (Inl e)
    then show ?thesis using assms i by (simp add: main_def)
  next
    case (Inr c)
    then have "max_gif_duration c = 15"
      using init_defaults(1) [of env None "Some (args_max_gif_duration (parse_args fs fmt None))" s c s1] i
      by (simp add: parse_args_def)
    moreover obtain evs where "timeline env evs (c, s1) = Some (bs, self, s')"
      using assms i Inr by (auto simp: main_def)
    ultimately show ?thesis
      using timeline_max by fastforce
  qed
qed

section \<open>Skipping a file that already has the wanted format\<close>

text \<open>
  Claim C7, as the code has it. For every request whose input format, the lower-cased
  extension without its dot, equals the resolved output format: when the path has an
  extension, \<open>convert_file\<close> returns normally after logging that the file is skipped; when
  it has none, both formats are empty, and \<open>with_suffix\<close>, which is called before the two
  formats are compared, raises \<open>ValueError\<close> for the suffix \<open>.\<close>, which \<open>convert_file\<close>
  logs and raises again. In both cases no strategy is entered: no external call is
  made, and the outside world, the source file with it, is left as it was.
\<close>

theorem same_format_is_skipped:
  assumes wf: "path_wf file_path"
    and res: "resolve_output_format file_path output_format = Some fmt"
    and same: "drop 1 (str_lower (path_suffix file_path)) = str_lower fmt"
  shows "convert_file env self file_path output_format s
           = (if path_suffix file_path = []
              then (Inl (ValueError (InvalidSuffix ''.'')),
                    logging_error
                      (FailedToConvert file_path (ValueError (InvalidSuffix ''.''))) s)
              else (Inr (), logging_info (Skipping file_path) s))
         \<and> world (snd (convert_file env self file_path output_format s)) = world s
         \<and> calls (snd (convert_file env self file_path output_format s)) = calls s"
proof (cases "path_suffix file_path = []")
  case True
  then have "str_lower fmt = []"
    using same by (simp add: str_lower_def)
  moreover have "with_suffix file_path ''.'' = Inl (ValueError (InvalidSuffix ''.''))"
    by (simp add: with_suffix_def path_seps_def)
  ultimately have "convert_file env self file_path output_format s
          = (Inl (ValueError (InvalidSuffix ''.'')),
             logging_error (FailedToConvert file_path (ValueError (InvalidSuffix ''.''))) s)"
    by (simp add: convert_file_def res Let_def)
  then show ?thesis
    using True by (simp add: logging_error_def)
next
  case ext: False
  have len: "2 \<le> length (str_lower (path_suffix file_path))"
    using path_suffix_length [OF ext] by (simp add: length_str_lower)
  have "length (str_lower fmt) = length (str_lower (path_suffix file_path)) - 1"
    using same by (metis length_drop)
  with len have ne: "str_lower fmt \<noteq> []"
    by auto
  have "set (str_lower (path_suffix file_path)) \<inter> path_seps = {}"
    using path_suffix_seps [OF wf] by (simp add: str_lower_seps)
  then have seps: "set (str_lower fmt) \<inter> path_seps = {}"
    using same set_drop_subset [of 1 "str_lower (path_suffix file_path)"] by auto
  obtain q where q: "with_suffix file_path (CHR ''.'' # str_lower fmt) = Inr q"
    using with_suffix_ok [OF seps ne path_suffix_name [OF ext]] by blast
  have "convert_file env self file_path output_format s
          = (Inr (), logging_info (Skipping file_path) s)"
    using same by (simp add: convert_file_def res q Let_def)
  then show ?thesis
    using ext by (simp add: logging_info_def)
qed

theorem same_format_is_skipped_witness:
  "path_wf (Path [] ''photo.png'')
   \<and> resolve_output_format (Path [] ''photo.png'') (Some ''PNG'') = Some ''PNG''
   \<and> drop 1 (str_lower (path_suffix (Path [] ''photo.png''))) = str_lower ''PNG''
   \<and> path_suffix (Path [] ''photo.png'') \<noteq> []
   \<and> convert_file demo_env demo_converter (Path [] ''photo.png'') (Some ''PNG'') demo_io
       = (Inr (), logging_info (Skipping (Path [] ''photo.png'')) demo_io)
   \<and> calls (snd (convert_file demo_env demo_converter (Path [] ''photo.png'') (Some ''PNG'')
        demo_io)) = calls demo_io"
proof -
  have a: "path_wf (Path [] ''photo.png'')"
    by (simp add: path_wf_def path_seps_def)
  have b: "path_suffix (Path [] ''photo.png'') \<noteq> []"
    by (simp add: path_suffix_def)
  have c: "resolve_output_format (Path [] ''photo.png'') (Some ''PNG'') = Some ''PNG''"
    by (simp add: resolve_output_format_def falsy_def)
  have d: "drop 1 (str_lower (path_suffix (Path [] ''photo.png''))) = str_lower ''PNG''"
    by (simp add: path_suffix_def str_lower_def lower_char_unfold)
  note t = same_format_is_skipped [OF a c d, of demo_env demo_converter demo_io]
  have r: "convert_file demo_env demo_converter (Path [] ''photo.png'') (Some ''PNG'') demo_io
             = (Inr (), logging_info (Skipping (Path [] ''photo.png'')) demo_io)"
    using t [THEN conjunct1] b by (simp only: if_False)
  note u = t [THEN conjunct2, THEN conjunct2]
  show ?thesis
    apply (rule conjI, rule a)
    apply (rule conjI, rule c)
    apply (rule conjI, rule d)
    apply (rule conjI, rule b)
    apply (rule conjI, rule r)
    apply (rule u)
    done
qed

text \<open>
  The claim as written fails for a path without an extension that is asked for the
  empty format: the input format and the resolved output format are both empty, and
  \<open>convert_file\<close> raises instead of skipping.
\<close>

theorem same_format_counterexample:
  "path_wf (Path [] ''README'')
   \<and> resolve_output_format (Path [] ''README'') (Some []) = Some []
   \<and> drop 1 (str_lower (path_suffix (Path [] ''README''))) = str_lower []
   \<and> convert_file demo_env demo_converter (Path [] ''README'') (Some []) demo_io
       \<noteq> (Inr (), logging_info (Skipping (Path [] ''README'')) demo_io)
   \<and> fst (convert_file demo_env demo_converter (Path [] ''README'') (Some []) demo_io)
       = Inl (ValueError (InvalidSuffix ''.''))"
  by code_simp

section \<open>Rejecting an output format outside the class's table\<close>

text \<open>
  Claim C9, as the code has it. For every request on a path of one of the three media
  classes whose resolved output format differs from the input format and is not a key of
  the class's format table, \<open>convert_file\<close> raises a \<open>ValueError\<close> before any strategy
  is entered, so that no external call is made and the outside world is unchanged. The
  error is the class's "unsupported output format" error when the format holds no path
  separator; when it holds one, the output path cannot be formed and the error is the
  path library's "invalid suffix" error.
\<close>

theorem unsupported_output_format_rejected:
  assumes cls: "media_class_of file_path = Some c"
    and res: "resolve_output_format file_path output_format = Some fmt"
    and differs: "drop 1 (str_lower (path_suffix file_path)) \<noteq> str_lower fmt"
    and unsup: "format_mapping c (str_lower fmt) = None"
  shows "convert_file env self file_path output_format s =
           (Inl (ValueError
                  (if set (str_lower fmt) \<inter> path_seps = {}
                   then unsupported_output_format c (str_lower fmt)
                   else InvalidSuffix (CHR ''.'' # str_lower fmt))),
            logging_error
              (FailedToConvert file_path
                 (ValueError
                    (if set (str_lower fmt) \<inter> path_seps = {}
                     then unsupported_output_format c (str_lower fmt)
                     else InvalidSuffix (CHR ''.'' # str_lower fmt)))) s)
         \<and> calls (snd (convert_file env self file_path output_format s)) = calls s
         \<and> world (snd (convert_file env self file_path output_format s)) = world s"
proof -
  let ?f = "str_lower fmt"
  let ?e = "ValueError (if set ?f \<inter> path_seps = {} then unsupported_output_format c ?f
                        else InvalidSuffix (CHR ''.'' # ?f))"
  have ne: "?f \<noteq> []"
    using resolve_recognized_nonempty [OF cls res] by (simp add: str_lower_Nil)
  have name: "path_name file_path \<noteq> []"
    using cls media_class_supported [of file_path] recognized_suffix_nonempty path_suffix_name
    by auto
  have "convert_file env self file_path output_format s
          = (Inl ?e, logging_error (FailedToConvert file_path ?e) s)"
  proof (cases "set ?f \<inter> path_seps = {}")
    case True
    then obtain q where q: "with_suffix file_path (CHR ''.'' # ?f) = Inr q"
      using with_suffix_ok [OF _ ne name] by blast
    show ?thesis
      using cls differs unsup True
      by (cases c)
         (auto simp: convert_file_def res q Let_def media_class_of_def format_mapping_def
            unsupported_output_format_def split: if_splits)
  next
    case False
    then show ?thesis
      using with_suffix_bad [OF False, of file_path]
      by (simp add: convert_file_def res Let_def)
  qed
  then show ?thesis by (simp add: logging_error_def)
qed

theorem unsupported_output_format_rejected_witness:
  "media_class_of (Path [] ''song.mp3'') = Some AudioClass
   \<and> resolve_output_format (Path [] ''song.mp3'') (Some ''xyz'') = Some ''xyz''
   \<and> drop 1 (str_lower (path_suffix (Path [] ''song.mp3''))) \<noteq> str_lower ''xyz''
   \<and> format_mapping AudioClass (str_lower ''xyz'') = None
   \<and> fst (convert_file demo_env demo_converter (Path [] ''song.mp3'') (Some ''xyz'') demo_io)
       = Inl (ValueError (UnsupportedAudioOutputFormat ''xyz''))
   \<and> calls (snd (convert_file demo_env demo_converter (Path [] ''song.mp3'') (Some ''xyz'')
        demo_io)) = []"
proof -
  have a: "media_class_of (Path [] ''song.mp3'') = Some AudioClass"
    by code_simp
  have b: "resolve_output_format (Path [] ''song.mp3'') (Some ''xyz'') = Some ''xyz''"
    by code_simp
  have c: "drop 1 (str_lower (path_suffix (Path [] ''song.mp3''))) \<noteq> str_lower ''xyz''"
    by code_simp
  have d: "format_mapping AudioClass (str_lower ''xyz'') = None"
    by code_simp
  have e: "(set (str_lower ''xyz'') \<inter> path_seps = {}) = True"
    by code_simp
  have f: "unsupported_output_format AudioClass (str_lower ''xyz'') = UnsupportedAudioOutputFormat ''xyz''"
    by code_simp
  note t = unsupported_output_format_rejected [OF a b c d, of demo_env demo_converter demo_io]
  have g: "fst (convert_file demo_env demo_converter (Path [] ''song.mp3'') (Some ''xyz'') demo_io)
             = Inl (ValueError (UnsupportedAudioOutputFormat ''xyz''))"
    using t by (simp only: e f if_True fst_conv)
  from t have "calls (snd (convert_file demo_env demo_converter (Path [] ''song.mp3'')
                    (Some ''xyz'') demo_io)) = calls demo_io"
    by blast
  then have h: "calls (snd (convert_file demo_env demo_converter (Path [] ''song.mp3'')
                    (Some ''xyz'') demo_io)) = []"
    by (simp add: demo_io_def)
  show ?thesis
    using a b c d g h by blast
qed

text \<open>
  The claim as written fails for the format \<open>a/b\<close> asked of the audio file \<open>song.mp3\<close>:
  the format differs from \<open>mp3\<close> and is no key of the audio table, yet the error raised
  is not the "unsupported audio output format" error.
\<close>

theorem unsupported_output_format_counterexample:
  "media_class_of (Path [] ''song.mp3'') = Some AudioClass
   \<and> resolve_output_format (Path [] ''song.mp3'') (Some ''a/b'') = Some ''a/b''
   \<and> drop 1 (str_lower (path_suffix (Path [] ''song.mp3''))) \<noteq> str_lower ''a/b''
   \<and> audio_format_mapping (str_lower ''a/b'') = None
   \<and> fst (convert_file demo_env demo_converter (Path [] ''song.mp3'') (Some ''a/b'') demo_io)
       \<noteq> Inl (ValueError (UnsupportedAudioOutputFormat ''a/b''))
   \<and> fst (convert_file demo_env demo_converter (Path [] ''song.mp3'') (Some ''a/b'') demo_io)
       = Inl (ValueError (InvalidSuffix ''.a/b''))"
  by code_simp

section \<open>A file of no class and no format\<close>

text \<open>
  Claim C10. Called on a path whose extension is in none of the three class sets and with
  no output format, \<open>convert_file\<close> raises \<open>AttributeError\<close>: the format is still \<open>None\<close>
  when it is lower-cased, before any class branch. The "unsupported input format" error
  is therefore raised only when an output format was given. Through \<open>add_file\<close> the
  situation does not arise: for such a path \<open>add_file\<close> leaves the converter, its pending
  set included, as it was and only logs a warning, and for a path of a recognised
  extension the format is always resolved.
\<close>

theorem unrecognized_extension_without_format:
  assumes unrec: "str_lower (path_suffix file_path) \<notin> supported_formats"
  shows "convert_file env self file_path None s
           = (Inl AttributeError, logging_error (FailedToConvert file_path AttributeError) s)
         \<and> ((\<exists>x. fst (convert_file env self file_path output_format s)
                    = Inl (ValueError (UnsupportedInputFormat x)))
              \<longrightarrow> \<not> falsy output_format)
         \<and> add_file now file_path output_format (self, s)
             = (if processing_lock self then None
                else Some (self, logging_warning (UnsupportedFileFormat file_path) s))
         \<and> (str_lower (path_suffix q) \<in> supported_formats
              \<longrightarrow> resolve_output_format q other_format \<noteq> None)"
proof -
  have a: "convert_file env self file_path None s
             = (Inl AttributeError, logging_error (FailedToConvert file_path AttributeError) s)"
    by (simp add: convert_file_def resolve_unrecognized [OF unrec])
  have b: "(\<exists>x. fst (convert_file env self file_path output_format s)
                   = Inl (ValueError (UnsupportedInputFormat x)))
             \<longrightarrow> \<not> falsy output_format"
  proof (cases output_format)
    case None
    then show ?thesis using a by simp
  next
    case (Some f)
    show ?thesis
    proof (cases "f = []")
      case True
      then show ?thesis
        using Some
        by (simp add: convert_file_def resolve_unrecognized [OF unrec] str_lower_def
            with_suffix_def path_seps_def)
    next
      case False
      then show ?thesis using Some by (simp add: falsy_def)
    qed
  qed
  have c: "add_file now file_path output_format (self, s)
             = (if processing_lock self then None
                else Some (self, logging_warning (UnsupportedFileFormat file_path) s))"
    using unrec by (simp add: add_file_def acquire_def add_file_locked_def release_def)
  have d: "str_lower (path_suffix q) \<in> supported_formats
             \<longrightarrow> resolve_output_format q other_format \<noteq> None"
  proof
    assume "str_lower (path_suffix q) \<in> supported_formats"
    then obtain k where "media_class_of q = Some k"
      using media_class_supported [of q] by auto
    then show "resolve_output_format q other_format \<noteq> None"
      by (auto simp: resolve_recognized falsy_def split: option.splits)
  qed
  from a b c d show ?thesis by simp
qed

theorem unrecognized_extension_without_format_witness:
  "str_lower (path_suffix (Path [] ''notes.xyz'')) \<notin> supported_formats
   \<and> fst (convert_file demo_env demo_converter (Path [] ''notes.xyz'') None demo_io)
       = Inl AttributeError
   \<and> fst (convert_file demo_env demo_converter (Path [] ''notes.xyz'') (Some ''png'') demo_io)
       = Inl (ValueError (UnsupportedInputFormat ''xyz''))
   \<and> \<not> falsy (Some ''png'')
   \<and> add_file 0 (Path [] ''notes.xyz'') (Some ''png'') (demo_converter, demo_io)
       = Some (demo_converter,
               logging_warning (UnsupportedFileFormat (Path [] ''notes.xyz'')) demo_io)
   \<and> str_lower (path_suffix (Path [] ''photo.png'')) \<in> supported_formats
   \<and> resolve_output_format (Path [] ''photo.png'') None \<noteq> None"
proof -
  have a: "str_lower (path_suffix (Path [] ''notes.xyz'')) \<notin> supported_formats"
    by code_simp
  have b: "fst (convert_file demo_env demo_converter (Path [] ''notes.xyz'') (Some ''png'')
             demo_io) = Inl (ValueError (UnsupportedInputFormat ''xyz''))"
    by code_simp
  have c: "str_lower (path_suffix (Path [] ''photo.png'')) \<in> supported_formats"
    by code_simp
  have d: "\<not> processing_lock demo_converter"
    by (simp add: demo_converter_def)
  have e: "\<not> falsy (Some ''png'')"
    by (simp add: falsy_def)
  note t = unrecognized_extension_without_format [OF a, of demo_env demo_converter demo_io
        "Some ''png''" 0 "Path [] ''photo.png''" None]
  have f: "fst (convert_file demo_env demo_converter (Path [] ''notes.xyz'') None demo_io)
             = Inl AttributeError"
    using t by (simp only: fst_conv)
  from t have "add_file 0 (Path [] ''notes.xyz'') (Some ''png'') (demo_converter, demo_io)
       = (if processing_lock demo_converter then None
          else Some (demo_converter,
                 logging_warning (UnsupportedFileFormat (Path [] ''notes.xyz'')) demo_io))"
    by blast
  with d have g: "add_file 0 (Path [] ''notes.xyz'') (Some ''png'') (demo_converter, demo_io)
       = Some (demo_converter,
               logging_warning (UnsupportedFileFormat (Path [] ''notes.xyz'')) demo_io)"
    by (simp only: if_False)
  from t c have h: "resolve_output_format (Path [] ''photo.png'') None \<noteq> None"
    by blast
  show ?thesis
    using a b c e f g h by blast
qed

section \<open>The duration limit of GIF conversion\<close>

text \<open>
  Claim C4. For a video source asked to become \<open>gif\<close> (in any letter case), when the probe
  yields a duration strictly above \<open>max_gif_duration\<close>, \<open>convert_file\<close> raises the
  \<open>ValueError\<close> that carries the duration and the maximum. The probe is the only external
  call made: no temporary directory is created, no transcoder is started, and the outside
  world is as the probe left it, so no output file exists, whole or partial. A converter
  built without a maximum has 30 seconds; the one \<open>main\<close> builds from a command line
  without \<open>--max-gif-duration\<close> has 15 seconds.
\<close>

theorem gif_duration_exceeded:
  assumes vid: "str_lower (path_suffix input_path) \<in> video_formats"
    and gif: "str_lower fmt = ''gif''"
    and probe: "get_video_duration env self input_path s = (Inr duration, s1)"
    and long: "duration > max_gif_duration self"
  shows "convert_file env self input_path (Some fmt) s =
           (Inl (ValueError (VideoDurationExceeds duration (max_gif_duration self))),
            logging_error
              (FailedToConvert input_path
                 (ValueError (VideoDurationExceeds duration (max_gif_duration self))))
              (logging_error
                 (ErrorInVideoConversion
                    (ValueError (VideoDurationExceeds duration (max_gif_duration self)))) s1))
         \<and> calls (snd (convert_file env self input_path (Some fmt) s))
             = calls s @ [Subprocess (ffprobe_cmd env (ffprobe_bin self) input_path probe_args)]
         \<and> world (snd (convert_file env self input_path (Some fmt) s)) = world s1
         \<and> (\<forall>c t. FileConverter_init env bw None s0 = (Inr c, t) \<longrightarrow> max_gif_duration c = 30)
         \<and> (\<forall>bs c t. main env (parse_args fs cli_format None) call_times s0 = Some (Inr (bs, c, t))
               \<longrightarrow> max_gif_duration c = 15)"
proof -
  obtain q where q: "convert_file env self input_path (Some fmt) s =
               (case convert_video env self input_path q ''gif'' s of
                  (Inl e, s1) \<Rightarrow> (Inl e, logging_error (FailedToConvert input_path e) s1)
                | (Inr u, s1) \<Rightarrow> (Inr u, s1))"
    using convert_file_video_gif [OF vid gif] by blast
  have a: "convert_file env self input_path (Some fmt) s =
           (Inl (ValueError (VideoDurationExceeds duration (max_gif_duration self))),
            logging_error
              (FailedToConvert input_path
                 (ValueError (VideoDurationExceeds duration (max_gif_duration self))))
              (logging_error
                 (ErrorInVideoConversion
                    (ValueError (VideoDurationExceeds duration (max_gif_duration self)))) s1))"
    by (simp add: q convert_video_too_long [OF probe long])
  have b: "calls (snd (convert_file env self input_path (Some fmt) s))
             = calls s @ [Subprocess (ffprobe_cmd env (ffprobe_bin self) input_path probe_args)]"
    using get_video_duration_ok [OF probe] by (simp add: a)
  have c: "world (snd (convert_file env self input_path (Some fmt) s)) = world s1"
    by (simp add: a)
  have d: "\<forall>c t. FileConverter_init env bw None s0 = (Inr c, t) \<longrightarrow> max_gif_duration c = 30"
    using init_defaults(1) [of env bw None s0] by auto
  have e: "\<forall>bs c t. main env (parse_args fs cli_format None) call_times s0 = Some (Inr (bs, c, t))
               \<longrightarrow> max_gif_duration c = 15"
    using main_max by blast
  from a b c d e show ?thesis by blast
qed

theorem gif_duration_exceeded_witness:
  "str_lower (path_suffix (Path [] ''long.mov'')) \<in> video_formats
   \<and> str_lower ''GIF'' = ''gif''
   \<and> fst (get_video_duration demo_env demo_converter (Path [] ''long.mov'') demo_io) = Inr 20
   \<and> 20 > max_gif_duration demo_converter
   \<and> fst (convert_file demo_env demo_converter (Path [] ''long.mov'') (Some ''GIF'') demo_io)
       = Inl (ValueError (VideoDurationExceeds 20 (max_gif_duration demo_converter)))
   \<and> calls (snd (convert_file demo_env demo_converter (Path [] ''long.mov'') (Some ''GIF'')
        demo_io))
       = calls demo_io
         @ [Subprocess (ffprobe_cmd demo_env (ffprobe_bin demo_converter) (Path [] ''long.mov'')
              probe_args)]
   \<and> (\<exists>c t. FileConverter_init demo_env None None demo_io = (Inr c, t)
          \<and> max_gif_duration c = 30)
   \<and> (\<exists>bs c t. main demo_env (parse_args [''long.mov''] (Some ''gif'') None) [0] demo_io
                  = Some (Inr (bs, c, t))
          \<and> max_gif_duration c = 15)"
proof -
  let ?p = "Path [] ''long.mov''"
  have a: "str_lower (path_suffix ?p) \<in> video_formats"
    by code_simp
  have b: "str_lower ''GIF'' = ''gif''"
    by code_simp
  have c0: "fst (get_video_duration demo_env demo_converter ?p demo_io) = Inr 20"
    by code_simp
  then have c: "get_video_duration demo_env demo_converter ?p demo_io
                  = (Inr 20, snd (get_video_duration demo_env demo_converter ?p demo_io))"
    by (simp add: prod_eq_iff)
  have d: "20 > max_gif_duration demo_converter"
    by (simp add: demo_converter_def)
  have i0: "case fst (FileConverter_init demo_env None None demo_io) of
              Inr c \<Rightarrow> True | Inl e \<Rightarrow> False"
    by code_simp
  then obtain c1 t1 where i: "FileConverter_init demo_env None None demo_io = (Inr c1, t1)"
    by (cases "FileConverter_init demo_env None None demo_io") (auto split: sum.splits)
  have m0: "case main demo_env (parse_args [''long.mov''] (Some ''gif'') None) [0] demo_io of
              Some (Inr r) \<Rightarrow> True | Some (Inl e) \<Rightarrow> False | None \<Rightarrow> False"
    by code_simp
  then obtain bs c2 t2 where
    m: "main demo_env (parse_args [''long.mov''] (Some ''gif'') None) [0] demo_io
          = Some (Inr (bs, c2, t2))"
    by (auto split: option.splits sum.splits)
  note t = gif_duration_exceeded [OF a b c d, of None demo_io "[''long.mov'']" "Some ''gif''" "[0]"]
  have e: "fst (convert_file demo_env demo_converter ?p (Some ''GIF'') demo_io)
             = Inl (ValueError (VideoDurationExceeds 20 (max_gif_duration demo_converter)))"
    using t by (simp only: fst_conv)
  have f: "calls (snd (convert_file demo_env demo_converter ?p (Some ''GIF'') demo_io))
       = calls demo_io
         @ [Subprocess (ffprobe_cmd demo_env (ffprobe_bin demo_converter) ?p probe_args)]"
    using t by blast
  have g: "max_gif_duration c1 = 30"
    using t i by blast
  have h: "max_gif_duration c2 = 15"
    using t m by blast
  show ?thesis
    using a b c0 d e f g h i m by blast
qed

section \<open>The two passes of GIF conversion\<close>

lemma run_ffmpeg_command_effect:
  assumes "bin \<noteq> []"
  shows "calls (snd (run_ffmpeg_command env bin i out x True s))
           = calls s @ [Subprocess (ffmpeg_cmd env bin i out x)]"
    and "world (snd (run_ffmpeg_command env bin i out x True s))
           = snd (subprocess_run env (ffmpeg_cmd env bin i out x) True (world s))"
    and "(\<exists>r. fst (run_ffmpeg_command env bin i out x True s) = Inr r)
           \<longleftrightarrow> pass_ok env (ffmpeg_cmd env bin i out x) (world s)"
  using assms
  by (auto simp: run_ffmpeg_command_def run_subprocess_hidden_def pass_ok_def
      split: prod.splits sum.splits)

lemma gif_passes_calls:
  assumes "ffmpeg_bin self \<noteq> []"
  shows "calls (snd (gif_passes env self i out tmp s)) =
           calls s
           @ [Subprocess (ffmpeg_cmd env (ffmpeg_bin self) i
                (path_of_string env (os_path_join env tmp ''palette.png'')) (Some palette_args))]
           @ (if pass_ok env (ffmpeg_cmd env (ffmpeg_bin self) i
                   (path_of_string env (os_path_join env tmp ''palette.png''))
                   (Some palette_args)) (world s)
              then [Subprocess (ffmpeg_cmd env (ffmpeg_bin self) i out
                      (Some (gif_args (os_path_join env tmp ''palette.png''))))]
              else [])"
proof -
  let ?pp = "path_of_string env (os_path_join env tmp ''palette.png'')"
  let ?pc = "ffmpeg_cmd env (ffmpeg_bin self) i ?pp (Some palette_args)"
  obtain a b where r1:
    "run_ffmpeg_command env (ffmpeg_bin self) i ?pp (Some palette_args) True s = (a, b)"
    by (cases "run_ffmpeg_command env (ffmpeg_bin self) i ?pp (Some palette_args) True s")
  note e1 = run_ffmpeg_command_effect [OF assms, of env i ?pp "Some palette_args" s]
  have cb: "calls b = calls s @ [Subprocess ?pc]"
    using e1(1) r1 by simp
  show ?thesis
  proof (cases a)
    case (Inl e)
    then have "\<not> pass_ok env ?pc (world s)"
      using e1(3) r1 by simp
    moreover have "gif_passes env self i out tmp s = (Inl e, b)"
      using Inl by (simp add: gif_passes_def Let_def r1)
    ultimately show ?thesis using cb by simp
  next
    case (Inr r)
    then have ok: "pass_ok env ?pc (world s)"
      using e1(3) r1 by simp
    obtain c d where r2:
      "run_ffmpeg_command env (ffmpeg_bin self) i out
         (Some (gif_args (os_path_join env tmp ''palette.png''))) True b = (c, d)"
      by (cases "run_ffmpeg_command env (ffmpeg_bin self) i out
         (Some (gif_args (os_path_join env tmp ''palette.png''))) True b")
    have cd: "calls d = calls b @ [Subprocess (ffmpeg_cmd env (ffmpeg_bin self) i out
                      (Some (gif_args (os_path_join env tmp ''palette.png''))))]"
      using run_ffmpeg_command_effect(1) [OF assms, of env i out
                 "Some (gif_args (os_path_join env tmp ''palette.png''))" b] r2
      by simp
    have "calls (snd (gif_passes env self i out tmp s)) = calls d"
      using Inr by (cases c) (simp_all add: gif_passes_def Let_def r1 r2)
    then show ?thesis using cb cd ok by simp
  qed
qed

lemma convert_video_to_gif_calls:
  assumes bin: "ffmpeg_bin self \<noteq> []"
    and tmp: "temporary_directory env (world s) = (Inr tmp, w1)"
  shows "calls (snd (convert_video_to_gif env self i out s)) =
           calls s
           @ [TempDirCreate,
              Subprocess (ffmpeg_cmd env (ffmpeg_bin self) i
                (path_of_string env (os_path_join env tmp ''palette.png'')) (Some palette_args))]
           @ (if pass_ok env (ffmpeg_cmd env (ffmpeg_bin self) i
                   (path_of_string env (os_path_join env tmp ''palette.png''))
                   (Some palette_args)) w1
              then [Subprocess (ffmpeg_cmd env (ffmpeg_bin self) i out
                      (Some (gif_args (os_path_join env tmp ''palette.png''))))]
              else [])
           @ [TempDirCleanup tmp]"
proof -
  let ?s0 = "s\<lparr>world := w1, calls := calls s @ [TempDirCreate]\<rparr>"
  obtain r s2 where g: "gif_passes env self i out tmp ?s0 = (r, s2)"
    by (cases "gif_passes env self i out tmp ?s0")
  obtain c w3 where cl: "cleanup env tmp (world s2) = (c, w3)"
    by (cases "cleanup env tmp (world s2)")
  have "calls (snd (convert_video_to_gif env self i out s)) = calls s2 @ [TempDirCleanup tmp]"
    by (cases c; cases r) (simp_all add: convert_video_to_gif_def tmp g cl)
  then show ?thesis
    using gif_passes_calls [OF bin, of env i out tmp ?s0] g by simp
qed

lemma convert_video_gif_short:
  assumes probe: "get_video_duration env self input_path s = (Inr duration, s1)"
    and short: "duration \<le> max_gif_duration self"
  shows "calls (snd (convert_video env self input_path output_path ''gif'' s))
           = calls (snd (convert_video_to_gif env self input_path output_path s1))"
  using short by (simp add: convert_video_def probe split: prod.splits sum.splits)


text \<open>
  Claim C8. For a video source asked to become \<open>gif\<close> whose probed duration is within
  the maximum, with the transcoder located and the temporary directory created, the
  external calls \<open>convert_file\<close> makes after the probe are, in this order: the creation
  of the temporary directory; the palette pass, which samples at 10 frames a second scaled
  to 480 pixels of width and writes \<open>palette.png\<close> inside that directory; when that pass
  leaves with exit code 0, the render pass, which samples the source in the same way,
  applies the palette and writes the source path with the suffix \<open>.gif\<close>; and the removal
  of the temporary directory. The removal is the last call whether the palette pass
  fails, the render pass fails or both succeed, and the render pass is not started after
  a failed palette pass.
\<close>

theorem gif_two_pass_pipeline:
  assumes vid: "str_lower (path_suffix input_path) \<in> video_formats"
    and gif: "str_lower fmt = ''gif''"
    and probe: "get_video_duration env self input_path s = (Inr duration, s1)"
    and short: "duration \<le> max_gif_duration self"
    and bin: "ffmpeg_bin self \<noteq> []"
    and tmp: "temporary_directory env (world s1) = (Inr tmp, w1)"
    and out: "with_suffix input_path ''.gif'' = Inr output_path"
  shows "(let palette_path = os_path_join env tmp ''palette.png'';
              palette_pass =
                [ffmpeg_bin self, ''-i'', resolve_str env input_path,
                 ''-vf'', ''fps=10,scale=480:-1:flags=lanczos,palettegen'',
                 ''-y'', ''-loglevel'', ''error'', ''-hide_banner'',
                 resolve_str env (path_of_string env palette_path)];
              render_pass =
                [ffmpeg_bin self, ''-i'', resolve_str env input_path,
                 ''-i'', palette_path,
                 ''-filter_complex'', ''fps=10,scale=480:-1:flags=lanczos[x];[x][1:v]paletteuse'',
                 ''-y'', ''-loglevel'', ''error'', ''-hide_banner'',
                 resolve_str env output_path]
          in calls (snd (convert_file env self input_path (Some fmt) s)) =
               calls s1 @ [TempDirCreate, Subprocess palette_pass]
               @ (if pass_ok env palette_pass w1 then [Subprocess render_pass] else [])
               @ [TempDirCleanup tmp])"
proof -
  obtain q where q: "with_suffix input_path ''.gif'' = Inr q"
    and c: "convert_file env self input_path (Some fmt) s =
               (case convert_video env self input_path q ''gif'' s of
                  (Inl e, s1) \<Rightarrow> (Inl e, logging_error (FailedToConvert input_path e) s1)
                | (Inr u, s1) \<Rightarrow> (Inr u, s1))"
    using convert_file_video_gif [OF vid gif] by blast
  have q': "q = output_path" using q out by simp
  have "calls (snd (convert_file env self input_path (Some fmt) s))
          = calls (snd (convert_video env self input_path output_path ''gif'' s))"
    by (simp add: c q' split: prod.splits sum.splits)
  also have "\<dots> = calls (snd (convert_video_to_gif env self input_path output_path s1))"
    by (rule convert_video_gif_short [OF probe short])
  finally show ?thesis
    by (simp add: convert_video_to_gif_calls [OF bin tmp] Let_def ffmpeg_cmd_def
        palette_args_def gif_args_def)
qed

theorem gif_two_pass_pipeline_witness:
  "str_lower (path_suffix (Path [] ''clip.mov'')) \<in> video_formats
   \<and> str_lower ''gif'' = ''gif''
   \<and> fst (get_video_duration demo_env demo_converter (Path [] ''clip.mov'') demo_io) = Inr 10
   \<and> 10 \<le> max_gif_duration demo_converter
   \<and> ffmpeg_bin demo_converter \<noteq> []
   \<and> temporary_directory demo_env
        (world (snd (get_video_duration demo_env demo_converter (Path [] ''clip.mov'') demo_io)))
       = (Inr ''tmp'', ())
   \<and> with_suffix (Path [] ''clip.mov'') ''.gif'' = Inr (Path [] ''clip.gif'')
   \<and> calls (snd (convert_file demo_env demo_converter (Path [] ''clip.mov'') (Some ''gif'')
        demo_io))
       = [Subprocess [''ffprobe.exe'', ''-v'', ''error'', ''-show_entries'', ''format=duration'',
            ''-of'', ''json'', ''clip.mov''],
          TempDirCreate,
          Subprocess [''ffmpeg.exe'', ''-i'', ''clip.mov'',
            ''-vf'', ''fps=10,scale=480:-1:flags=lanczos,palettegen'',
            ''-y'', ''-loglevel'', ''error'', ''-hide_banner'', ''tmp/palette.png''],
          Subprocess [''ffmpeg.exe'', ''-i'', ''clip.mov'', ''-i'', ''tmp/palette.png'',
            ''-filter_complex'', ''fps=10,scale=480:-1:flags=lanczos[x];[x][1:v]paletteuse'',
            ''-y'', ''-loglevel'', ''error'', ''-hide_banner'', ''clip.gif''],
          TempDirCleanup ''tmp'']"
proof -
  let ?p = "Path [] ''clip.mov''"
  let ?s1 = "snd (get_video_duration demo_env demo_converter ?p demo_io)"
  have a: "str_lower (path_suffix ?p) \<in> video_formats"
    by code_simp
  have b: "str_lower ''gif'' = ''gif''"
    by code_simp
  have c0: "fst (get_video_duration demo_env demo_converter ?p demo_io) = Inr 10"
    by code_simp
  then have c: "get_video_duration demo_env demo_converter ?p demo_io = (Inr 10, ?s1)"
    by (simp add: prod_eq_iff)
  have d: "10 \<le> max_gif_duration demo_converter"
    by (simp add: demo_converter_def)
  have e: "ffmpeg_bin demo_converter \<noteq> []"
    by (simp add: demo_converter_def)
  have f: "temporary_directory demo_env (world ?s1) = (Inr ''tmp'', ())"
    by (simp add: demo_env_def)
  have g: "with_suffix ?p ''.gif'' = Inr (Path [] ''clip.gif'')"
    by code_simp
  have k: "calls ?s1 = [Subprocess [''ffprobe.exe'', ''-v'', ''error'', ''-show_entries'',
            ''format=duration'', ''-of'', ''json'', ''clip.mov'']]"
    by code_simp
  have ok: "pass_ok demo_env [''ffmpeg.exe'', ''-i'', ''clip.mov'',
            ''-vf'', ''fps=10,scale=480:-1:flags=lanczos,palettegen'',
            ''-y'', ''-loglevel'', ''error'', ''-hide_banner'', ''tmp/palette.png''] ()"
    by code_simp
  note t = gif_two_pass_pipeline [OF a b c d e f g]
  have h: "calls (snd (convert_file demo_env demo_converter ?p (Some ''gif'') demo_io))
       = [Subprocess [''ffprobe.exe'', ''-v'', ''error'', ''-show_entries'', ''format=duration'',
            ''-of'', ''json'', ''clip.mov''],
          TempDirCreate,
          Subprocess [''ffmpeg.exe'', ''-i'', ''clip.mov'',
            ''-vf'', ''fps=10,scale=480:-1:flags=lanczos,palettegen'',
            ''-y'', ''-loglevel'', ''error'', ''-hide_banner'', ''tmp/palette.png''],
          Subprocess [''ffmpeg.exe'', ''-i'', ''clip.mov'', ''-i'', ''tmp/palette.png'',
            ''-filter_complex'', ''fps=10,scale=480:-1:flags=lanczos[x];[x][1:v]paletteuse'',
            ''-y'', ''-loglevel'', ''error'', ''-hide_banner'', ''clip.gif''],
          TempDirCleanup ''tmp'']"
  proof -
    have r: "resolve_str demo_env = path_name" "os_path_join demo_env ''tmp'' ''palette.png'' = ''tmp/palette.png''"
      "path_of_string demo_env = Path []" "ffmpeg_bin demo_converter = ''ffmpeg.exe''"
      by (simp_all add: demo_env_def demo_converter_def)
    show ?thesis
      using t ok by (simp only: Let_def r k path.sel if_True append.simps)
  qed
  show ?thesis
    using a b c0 d e f g h by blast
qed

section \<open>The log only grows\<close>

lemma logging_logged [simp]:
  "logged (logging_info m s) = logged s @ [(INFO, m)]"
  "logged (logging_warning m s) = logged s @ [(WARNING, m)]"
  "logged (logging_error m s) = logged s @ [(ERROR, m)]"
  by (simp_all add: logging_info_def logging_warning_def logging_error_def)

lemma prefix_snoc: "prefix xs ys \<Longrightarrow> prefix xs (ys @ [y])"
  by (simp add: prefix_def) auto

lemma run_subprocess_hidden_logged [simp]:
  "logged (snd (run_subprocess_hidden env cmd piped s)) = logged s"
  by (simp add: run_subprocess_hidden_def split: prod.splits)

lemma run_ffmpeg_command_logged [simp]:
  "logged (snd (run_ffmpeg_command env bin i out x cap s)) = logged s"
proof -
  obtain r s1 where h: "run_subprocess_hidden env (ffmpeg_cmd env bin i out x) cap s = (r, s1)"
    by (cases "run_subprocess_hidden env (ffmpeg_cmd env bin i out x) cap s")
  then have "logged s1 = logged s"
    using run_subprocess_hidden_logged [of env "ffmpeg_cmd env bin i out x" cap s] by simp
  then show ?thesis
    by (cases r) (simp_all add: run_ffmpeg_command_def h)
qed

lemma run_ffprobe_command_logged [simp]:
  "logged (snd (run_ffprobe_command env bin i pargs cap s)) = logged s"
proof -
  obtain r s1 where h: "run_subprocess_hidden env (ffprobe_cmd env bin i pargs) cap s = (r, s1)"
    by (cases "run_subprocess_hidden env (ffprobe_cmd env bin i pargs) cap s")
  then have "logged s1 = logged s"
    using run_subprocess_hidden_logged [of env "ffprobe_cmd env bin i pargs" cap s] by simp
  then show ?thesis
    by (cases r) (simp_all add: run_ffprobe_command_def h)
qed

lemma img_save_logged [simp]:
  "logged (snd (img_save env img out fmt sizes s)) = logged s"
  by (simp add: img_save_def split: prod.splits)

lemma convert_image_logged:
  "prefix (logged s) (logged (snd (convert_image env self i out fmt s)))"
proof (cases "image_format_mapping fmt")
  case None
  then show ?thesis by (simp add: convert_image_def)
next
  case (Some pil)
  let ?s1 = "s\<lparr>calls := calls s @ [ImageOpen i]\<rparr>"
  have sv: "\<And>img sizes pf. prefix (logged s)
      (logged (snd (case img_save env img out pf sizes ?s1 of
          (Inl e, s2) \<Rightarrow> (Inl e, s2)
        | (Inr u, s2) \<Rightarrow> (Inr (), logging_info (Converted i out) s2))))"
  proof -
    fix img sizes pf
    obtain r s2 where h: "img_save env img out pf sizes ?s1 = (r, s2)"
      by (cases "img_save env img out pf sizes ?s1")
    then have "logged s2 = logged s"
      using img_save_logged [of env img out pf sizes ?s1] by simp
    then show "prefix (logged s)
      (logged (snd (case img_save env img out pf sizes ?s1 of
          (Inl e, s2) \<Rightarrow> (Inl e, s2)
        | (Inr u, s2) \<Rightarrow> (Inr (), logging_info (Converted i out) s2))))"
      by (cases r) (simp_all add: h)
  qed
  show ?thesis
    by (simp add: convert_image_def Some Let_def sv split: sum.splits)
qed

lemma convert_audio_logged:
  "prefix (logged s) (logged (snd (convert_audio env self i out fmt s)))"
proof -
  obtain r s1 where h: "run_ffmpeg_command env (ffmpeg_bin self) i out None True s = (r, s1)"
    by (cases "run_ffmpeg_command env (ffmpeg_bin self) i out None True s")
  then have "logged s1 = logged s"
    using run_ffmpeg_command_logged [of env "ffmpeg_bin self" i out None True s] by simp
  then show ?thesis
    by (cases r) (simp_all add: convert_audio_def h)
qed

lemma get_video_duration_logged:
  "prefix (logged s) (logged (snd (get_video_duration env self i s)))"
proof -
  obtain r s1 where h: "run_ffprobe_command env (ffprobe_bin self) i probe_args True s = (r, s1)"
    by (cases "run_ffprobe_command env (ffprobe_bin self) i probe_args True s")
  then have "logged s1 = logged s"
    using run_ffprobe_command_logged [of env "ffprobe_bin self" i probe_args True s] by simp
  then show ?thesis
    by (cases r) (simp_all add: get_video_duration_def h split: sum.splits)
qed

lemma gif_passes_logged:
  "prefix (logged s) (logged (snd (gif_passes env self i out tmp s)))"
proof -
  let ?pp = "path_of_string env (os_path_join env tmp ''palette.png'')"
  obtain a b where r1:
    "run_ffmpeg_command env (ffmpeg_bin self) i ?pp (Some palette_args) True s = (a, b)"
    by (cases "run_ffmpeg_command env (ffmpeg_bin self) i ?pp (Some palette_args) True s")
  then have lb: "logged b = logged s"
    using run_ffmpeg_command_logged [of env "ffmpeg_bin self" i ?pp "Some palette_args" True s]
    by simp
  obtain c d where r2:
    "run_ffmpeg_command env (ffmpeg_bin self) i out
       (Some (gif_args (os_path_join env tmp ''palette.png''))) True b = (c, d)"
    by (cases "run_ffmpeg_command env (ffmpeg_bin self) i out
       (Some (gif_args (os_path_join env tmp ''palette.png''))) True b")
  then have ld: "logged d = logged b"
    using run_ffmpeg_command_logged [of env "ffmpeg_bin self" i out
       "Some (gif_args (os_path_join env tmp ''palette.png''))" True b]
    by simp
  show ?thesis
    using lb ld by (cases a; cases c) (simp_all add: gif_passes_def Let_def r1 r2)
qed

lemma convert_video_to_gif_logged:
  "prefix (logged s) (logged (snd (convert_video_to_gif env self i out s)))"
proof -
  obtain t w where tw: "temporary_directory env (world s) = (t, w)"
    by (cases "temporary_directory env (world s)")
  show ?thesis
  proof (cases t)
    case (Inl e)
    then show ?thesis by (simp add: convert_video_to_gif_def tw)
  next
    case (Inr tmp)
    let ?s0 = "s\<lparr>world := w, calls := calls s @ [TempDirCreate]\<rparr>"
    obtain r s2 where g: "gif_passes env self i out tmp ?s0 = (r, s2)"
      by (cases "gif_passes env self i out tmp ?s0")
    then have p: "prefix (logged s) (logged s2)"
      using gif_passes_logged [of ?s0 env self i out tmp] by simp
    obtain c w3 where cl: "cleanup env tmp (world s2) = (c, w3)"
      by (cases "cleanup env tmp (world s2)")
    show ?thesis
      using p by (cases c; cases r) (simp_all add: convert_video_to_gif_def tw Inr g cl prefix_snoc)
  qed
qed

lemma convert_video_logged:
  "prefix (logged s) (logged (snd (convert_video env self i out fmt s)))"
proof (cases "fmt = ''gif''")
  case True
  obtain r s1 where g: "get_video_duration env self i s = (r, s1)"
    by (cases "get_video_duration env self i s")
  then have p1: "prefix (logged s) (logged s1)"
    using get_video_duration_logged [of s env self i] by simp
  show ?thesis
  proof (cases r)
    case (Inl e)
    then show ?thesis using p1 by (simp add: convert_video_def True g prefix_snoc)
  next
    case (Inr d)
    obtain r2 s2 where v: "convert_video_to_gif env self i out s1 = (r2, s2)"
      by (cases "convert_video_to_gif env self i out s1")
    then have "prefix (logged s1) (logged s2)"
      using convert_video_to_gif_logged [of s1 env self i out] by simp
    with p1 have "prefix (logged s) (logged s2)"
      by (rule prefix_order.trans)
    then show ?thesis
      using p1 by (cases r2) (simp_all add: convert_video_def True g Inr v prefix_snoc)
  qed
next
  case False
  obtain r s1 where h: "run_ffmpeg_command env (ffmpeg_bin self) i out
       (Some (video_extra_args fmt)) True s = (r, s1)"
    by (cases "run_ffmpeg_command env (ffmpeg_bin self) i out
       (Some (video_extra_args fmt)) True s")
  then have "logged s1 = logged s"
    using run_ffmpeg_command_logged [of env "ffmpeg_bin self" i out
       "Some (video_extra_args fmt)" True s] by simp
  then show ?thesis
    by (cases r) (simp_all add: convert_video_def False h)
qed

lemma convert_file_logged:
  "prefix (logged s) (logged (snd (convert_file env self p f s)))"
proof -
  have w: "\<And>r s1. prefix (logged s) (logged s1) \<Longrightarrow>
      prefix (logged s) (logged (snd (case (r, s1) of
          (Inl e, s1) \<Rightarrow> (Inl e, logging_error (FailedToConvert p e) s1)
        | (Inr u, s1) \<Rightarrow> (Inr u, s1))))"
    subgoal for r s1 by (cases r) (simp_all add: prefix_snoc)
    done
  have w': "\<And>x. prefix (logged s) (logged (snd x)) \<Longrightarrow>
      prefix (logged s) (logged (snd (case x of
          (Inl e, s1) \<Rightarrow> (Inl e, logging_error (FailedToConvert p e) s1)
        | (Inr u, s1) \<Rightarrow> (Inr u, s1))))"
    subgoal for x using w [of "snd x" "fst x"] by (cases x) simp
    done
  show ?thesis
    unfolding convert_file_def
    by (rule w')
       (auto simp: Let_def convert_image_logged convert_audio_logged convert_video_logged
          split: option.splits sum.splits)
qed


lemma length_convert_results [simp]:
  "length (convert_results env self items s) = length items"
  by (induction env self items s rule: convert_results.induct)
     (auto split: prod.splits sum.splits)

lemma filter_isl_partition:
  "length (filter (\<lambda>r. \<not> isl r) rs) + length (filter isl rs) = length rs"
  by (induction rs) auto

lemma process_items_outcome:
  "\<exists>s2. process_items env self items (sc, fc) s =
           ((sc + length (filter (\<lambda>r. \<not> isl r) (convert_results env self items s)),
             fc + length (filter isl (convert_results env self items s))), s2)
        \<and> prefix (logged s) (logged s2)
        \<and> (\<forall>i e. i < length items \<and> convert_results env self items s ! i = Inl e
              \<longrightarrow> (ERROR, ErrorConverting (fst (items ! i)) e) \<in> set (logged s2))"
proof (induction items arbitrary: sc fc s)
  case Nil
  then show ?case by simp
next
  case (Cons item rest)
  obtain p f where item: "item = (p, f)" by (cases item)
  obtain r s1 where c: "convert_file env self p f s = (r, s1)"
    by (cases "convert_file env self p f s")
  have p1: "prefix (logged s) (logged s1)"
    using convert_file_logged [of s env self p f] c by simp
  show ?case
  proof (cases r)
    case (Inr u)
    obtain s2 where
      a: "process_items env self rest (sc + 1, fc) s1 =
           ((sc + 1 + length (filter (\<lambda>r. \<not> isl r) (convert_results env self rest s1)),
             fc + length (filter isl (convert_results env self rest s1))), s2)" and
      b: "prefix (logged s1) (logged s2)" and
      d: "\<forall>i e. i < length rest \<and> convert_results env self rest s1 ! i = Inl e
              \<longrightarrow> (ERROR, ErrorConverting (fst (rest ! i)) e) \<in> set (logged s2)"
      using Cons.IH [of "sc + 1" fc s1] by blast
    have "\<forall>i e. i < length (item # rest) \<and> convert_results env self (item # rest) s ! i = Inl e
              \<longrightarrow> (ERROR, ErrorConverting (fst ((item # rest) ! i)) e) \<in> set (logged s2)"
      using d by (auto simp: item c Inr nth_Cons split: nat.splits)
    then show ?thesis
      using a prefix_order.trans [OF p1 b] by (simp add: item c Inr)
  next
    case (Inl e)
    let ?s1 = "logging_error (ErrorConverting p e) s1"
    obtain s2 where
      a: "process_items env self rest (sc, fc + 1) ?s1 =
           ((sc + length (filter (\<lambda>r. \<not> isl r) (convert_results env self rest ?s1)),
             fc + 1 + length (filter isl (convert_results env self rest ?s1))), s2)" and
      b: "prefix (logged ?s1) (logged s2)" and
      d: "\<forall>i e. i < length rest \<and> convert_results env self rest ?s1 ! i = Inl e
              \<longrightarrow> (ERROR, ErrorConverting (fst (rest ! i)) e) \<in> set (logged s2)"
      using Cons.IH [of sc "fc + 1" ?s1] by blast
    have "set (logged ?s1) \<subseteq> set (logged s2)"
      using b by (rule set_mono_prefix)
    then have here: "(ERROR, ErrorConverting p e) \<in> set (logged s2)"
      by auto
    have "\<forall>i e. i < length (item # rest) \<and> convert_results env self (item # rest) s ! i = Inl e
              \<longrightarrow> (ERROR, ErrorConverting (fst ((item # rest) ! i)) e) \<in> set (logged s2)"
      using d here by (auto simp: item c Inl nth_Cons split: nat.splits)
    moreover have "prefix (logged s) (logged s2)"
    proof -
      have "prefix (logged s) (logged ?s1)"
        using p1 by (simp add: prefix_snoc)
      then show ?thesis
        using b by (rule prefix_order.trans)
    qed
    ultimately show ?thesis
      using a by (simp add: item c Inl)
  qed
qed

section \<open>One failing item does not stop the batch\<close>



section \<open>The pending set holds each request once\<close>

text \<open>
  Claim C6. A pending request is the pair of its path and its requested format. Adding
  the same pair a second time before the batch fires leaves the pending set as it was after
  the first time; from an empty set it then holds one entry, and the pass that follows
  runs the loop over exactly that one item. Adding the same path with a different format
  gives a second entry.
\<close>

theorem enqueue_is_idempotent:
  assumes free: "\<not> processing_lock self"
    and sup: "str_lower (path_suffix p) \<in> supported_formats"
  shows "\<exists>c1 s1 c2 s2 c3 s3.
           add_file t1 p f (self, s) = Some (c1, s1)
         \<and> add_file t2 p f (c1, s1) = Some (c2, s2)
         \<and> add_file t2 p g (c1, s1) = Some (c3, s3)
         \<and> pending_files c1 = insert (p, f) (pending_files self)
         \<and> pending_files c2 = pending_files c1
         \<and> pending_files c3 = insert (p, g) (insert (p, f) (pending_files self))
         \<and> (pending_files self = {} \<longrightarrow>
               card (pending_files c2) = 1 \<and> (f \<noteq> g \<longrightarrow> card (pending_files c3) = 2))
         \<and> (pending_files self = {} \<and> set_iter env {(p, f)} = [(p, f)] \<longrightarrow>
               (\<exists>success_count fail_count s4.
                  process_items env (c2\<lparr>processing_lock := True, pending_files := {}\<rparr>)
                    [(p, f)] (0, 0) (logging_info (ProcessingBatch 1) s2)
                    = ((success_count, fail_count), s4)
                  \<and> success_count + fail_count = 1
                  \<and> process_batch env (c2, s2)
                      = Some (c2\<lparr>pending_files := {}\<rparr>,
                              report_counts (success_count, fail_count) s4)))"
proof -
  obtain c1 s1 where a1: "add_file t1 p f (self, s) = Some (c1, s1)"
    and p1: "pending_files c1 = insert (p, f) (pending_files self)"
    and l1: "\<not> processing_lock c1"
    using add_file_free [OF free sup, of t1 f s] free by simp
  obtain c2 s2 where a2: "add_file t2 p f (c1, s1) = Some (c2, s2)"
    and p2: "pending_files c2 = insert (p, f) (pending_files c1)"
    and l2: "\<not> processing_lock c2"
    using add_file_free [OF l1 sup, of t2 f s1] l1 by simp
  obtain c3 s3 where a3: "add_file t2 p g (c1, s1) = Some (c3, s3)"
    and p3: "pending_files c3 = insert (p, g) (pending_files c1)"
    using add_file_free [OF l1 sup, of t2 g s1] by simp
  have q2: "pending_files c2 = pending_files c1"
    using p1 p2 by auto
  have q3: "pending_files c3 = insert (p, g) (insert (p, f) (pending_files self))"
    using p1 p3 by simp
  have cards: "pending_files self = {} \<longrightarrow>
               card (pending_files c2) = 1 \<and> (f \<noteq> g \<longrightarrow> card (pending_files c3) = 2)"
    using q2 q3 p1 by auto
  have one: "pending_files self = {} \<and> set_iter env {(p, f)} = [(p, f)] \<longrightarrow>
               (\<exists>success_count fail_count s4.
                  process_items env (c2\<lparr>processing_lock := True, pending_files := {}\<rparr>)
                    [(p, f)] (0, 0) (logging_info (ProcessingBatch 1) s2)
                    = ((success_count, fail_count), s4)
                  \<and> success_count + fail_count = 1
                  \<and> process_batch env (c2, s2)
                      = Some (c2\<lparr>pending_files := {}\<rparr>,
                              report_counts (success_count, fail_count) s4))"
  proof
    assume h: "pending_files self = {} \<and> set_iter env {(p, f)} = [(p, f)]"
    then have pc: "pending_files c2 = {(p, f)}"
      using q2 p1 by simp
    let ?c = "c2\<lparr>processing_lock := True, pending_files := {}\<rparr>"
    let ?s = "logging_info (ProcessingBatch 1) s2"
    define rs where "rs = convert_results env ?c [(p, f)] ?s"
    obtain s4 where
      pi: "process_items env ?c [(p, f)] (0, 0) ?s =
           ((0 + length (filter (\<lambda>r. \<not> isl r) rs), 0 + length (filter isl rs)), s4)"
      using process_items_outcome [of env ?c "[(p, f)]" 0 0 ?s] unfolding rs_def by blast
    have "length rs = length [(p, f)]"
      unfolding rs_def by (rule length_convert_results)
    then have sum: "length (filter (\<lambda>r. \<not> isl r) rs) + length (filter isl rs) = 1"
      using filter_isl_partition [of rs] by simp
    have "card (pending_files c2) = 1"
      using pc by simp
    then have "process_batch env (c2, s2)
            = Some (c2\<lparr>pending_files := {}\<rparr>,
                report_counts (length (filter (\<lambda>r. \<not> isl r) rs), length (filter isl rs)) s4)"
      using l2 pi h pc
      by (simp add: process_batch_free process_batch_locked_def capture_batch_def
          del: process_items.simps)
    with pi sum show "\<exists>success_count fail_count s4.
                  process_items env ?c [(p, f)] (0, 0) ?s = ((success_count, fail_count), s4)
                  \<and> success_count + fail_count = 1
                  \<and> process_batch env (c2, s2)
                      = Some (c2\<lparr>pending_files := {}\<rparr>,
                              report_counts (success_count, fail_count) s4)"
      by (simp del: process_items.simps)
  qed
  from a1 a2 a3 p1 q2 q3 cards one show ?thesis by blast
qed

theorem enqueue_is_idempotent_witness:
  "\<not> processing_lock demo_converter
   \<and> str_lower (path_suffix (Path [] ''photo.png'')) \<in> supported_formats
   \<and> pending_files demo_converter = {}
   \<and> set_iter demo_env {(Path [] ''photo.png'', None)} = [(Path [] ''photo.png'', None)]
   \<and> None \<noteq> Some ''jpg''
   \<and> (\<exists>c1 s1 c2 s2 c3 s3.
         add_file 0 (Path [] ''photo.png'') None (demo_converter, demo_io) = Some (c1, s1)
       \<and> add_file (1 / 20) (Path [] ''photo.png'') None (c1, s1) = Some (c2, s2)
       \<and> add_file (1 / 20) (Path [] ''photo.png'') (Some ''jpg'') (c1, s1) = Some (c3, s3)
       \<and> card (pending_files c2) = 1
       \<and> card (pending_files c3) = 2
       \<and> (\<exists>success_count fail_count s4.
             success_count + fail_count = 1
           \<and> process_batch demo_env (c2, s2)
               = Some (c2\<lparr>pending_files := {}\<rparr>,
                       report_counts (success_count, fail_count) s4)))"
proof -
  have a: "\<not> processing_lock demo_converter"
    by code_simp
  have b: "str_lower (path_suffix (Path [] ''photo.png'')) \<in> supported_formats"
    by code_simp
  have c: "pending_files demo_converter = {}"
    by (simp add: demo_converter_def)
  have d: "set_iter demo_env {(Path [] ''photo.png'', None)} = [(Path [] ''photo.png'', None)]"
    by code_simp
  have e: "(None :: string option) \<noteq> Some ''jpg''"
    by simp
  note t = enqueue_is_idempotent [OF a b, of 0 None demo_io "1 / 20" "Some ''jpg''" demo_env]
  from t obtain c1 s1 c2 s2 c3 s3 where
    x1: "add_file 0 (Path [] ''photo.png'') None (demo_converter, demo_io) = Some (c1, s1)" and
    x2: "add_file (1 / 20) (Path [] ''photo.png'') None (c1, s1) = Some (c2, s2)" and
    x3: "add_file (1 / 20) (Path [] ''photo.png'') (Some ''jpg'') (c1, s1) = Some (c3, s3)" and
    x4: "pending_files demo_converter = {} \<longrightarrow>
           card (pending_files c2) = 1
           \<and> (None \<noteq> Some ''jpg'' \<longrightarrow> card (pending_files c3) = 2)" and
    x5: "pending_files demo_converter = {}
           \<and> set_iter demo_env {(Path [] ''photo.png'', None)} = [(Path [] ''photo.png'', None)]
         \<longrightarrow> (\<exists>success_count fail_count s4.
                  process_items demo_env (c2\<lparr>processing_lock := True, pending_files := {}\<rparr>)
                    [(Path [] ''photo.png'', None)] (0, 0) (logging_info (ProcessingBatch 1) s2)
                    = ((success_count, fail_count), s4)
                  \<and> success_count + fail_count = 1
                  \<and> process_batch demo_env (c2, s2)
                      = Some (c2\<lparr>pending_files := {}\<rparr>,
                              report_counts (success_count, fail_count) s4))"
    by (elim exE conjE)
  have y1: "card (pending_files c2) = 1" and y2: "card (pending_files c3) = 2"
    using x4 c by simp_all
  from x5 c d obtain success_count fail_count s4 where
    y3: "success_count + fail_count = 1" and
    y4: "process_batch demo_env (c2, s2)
           = Some (c2\<lparr>pending_files := {}\<rparr>, report_counts (success_count, fail_count) s4)"
    by (elim impE conjE exE) (rule conjI)
  have "\<exists>success_count fail_count s4.
             success_count + fail_count = 1
           \<and> process_batch demo_env (c2, s2)
               = Some (c2\<lparr>pending_files := {}\<rparr>,
                       report_counts (success_count, fail_count) s4)"
    using y3 y4 by (intro exI conjI)
  with x1 x2 x3 y1 y2 have "\<exists>c1 s1 c2 s2 c3 s3.
         add_file 0 (Path [] ''photo.png'') None (demo_converter, demo_io) = Some (c1, s1)
       \<and> add_file (1 / 20) (Path [] ''photo.png'') None (c1, s1) = Some (c2, s2)
       \<and> add_file (1 / 20) (Path [] ''photo.png'') (Some ''jpg'') (c1, s1) = Some (c3, s3)
       \<and> card (pending_files c2) = 1
       \<and> card (pending_files c3) = 2
       \<and> (\<exists>success_count fail_count s4.
             success_count + fail_count = 1
           \<and> process_batch demo_env (c2, s2)
               = Some (c2\<lparr>pending_files := {}\<rparr>,
                       report_counts (success_count, fail_count) s4))"
    by blast
  with a b c d e show ?thesis by (intro conjI)
qed

section \<open>The lock during a pass\<close>

text \<open>
  While the lock is held no call of \<open>add_file\<close> takes a step, so a schedule that puts such
  calls between the steps of the loop does what its pass steps alone do; and the steps of
  a pass, taken one after the other, end where \<open>process_batch\<close> ends.
\<close>

lemma add_file_blocked:
  "processing_lock c \<Longrightarrow> sys_step env (AddFile now p f) (pc, c, s) = None"
  by (simp add: add_file_def acquire_def)

lemma loop_interleaved:
  assumes "processing_lock c"
    and "length (filter (\<lambda>a. a = PassStep) sched) \<le> length items"
  shows "\<exists>rest counts1 s2.
           run_schedule env sched (Looping items counts, c, s) = (Looping rest counts1, c, s2)
         \<and> run_schedule env sched (Looping items counts, c, s)
             = run_schedule env (filter (\<lambda>a. a = PassStep) sched) (Looping items counts, c, s)"
  using assms
proof (induction sched arbitrary: items counts s)
  case Nil
  then show ?case by simp
next
  case (Cons a sched)
  let ?cfg = "(Looping items counts, c, s)"
  show ?case
  proof (cases a)
    case (AddFile now p f)
    have blocked: "sys_step env a ?cfg = None"
      unfolding AddFile by (rule add_file_blocked [OF Cons.prems(1)])
    have e1: "run_schedule env (a # sched) ?cfg = run_schedule env sched ?cfg"
      by (simp only: run_schedule.simps blocked option.case)
    have e2: "filter (\<lambda>a. a = PassStep) (a # sched) = filter (\<lambda>a. a = PassStep) sched"
      by (simp add: AddFile)
    have le: "length (filter (\<lambda>a. a = PassStep) sched) \<le> length items"
      using Cons.prems(2) by (simp only: e2)
    obtain rest counts1 s2 where
      i1: "run_schedule env sched ?cfg = (Looping rest counts1, c, s2)" and
      i2: "run_schedule env sched ?cfg
             = run_schedule env (filter (\<lambda>a. a = PassStep) sched) ?cfg"
      using Cons.IH [OF Cons.prems(1) le, of counts s] by blast
    show ?thesis
      unfolding e1 e2 using i1 i2 by blast
  next
    case PassStep
    obtain x xs where items: "items = x # xs"
      using Cons.prems(2) by (cases items) (auto simp: PassStep)
    obtain p f where x: "x = (p, f)" by (cases x)
    obtain sc fc where counts: "counts = (sc, fc)" by (cases counts)
    obtain r s0 where cf: "convert_file env c p f s = (r, s0)"
      by (cases "convert_file env c p f s")
    obtain counts1 s1 where
      st: "pass_step env ?cfg = Some (Looping xs counts1, c, s1)"
      by (cases r) (simp_all add: items x counts cf)
    have e1: "run_schedule env (a # sched) ?cfg
                = run_schedule env sched (Looping xs counts1, c, s1)"
      by (simp only: run_schedule.simps PassStep sys_step.simps st option.case)
    have e2: "filter (\<lambda>a. a = PassStep) (a # sched)
                = PassStep # filter (\<lambda>a. a = PassStep) sched"
      by (simp add: PassStep)
    have e3: "run_schedule env (PassStep # filter (\<lambda>a. a = PassStep) sched) ?cfg
                = run_schedule env (filter (\<lambda>a. a = PassStep) sched)
                    (Looping xs counts1, c, s1)"
      by (simp only: run_schedule.simps sys_step.simps st option.case)
    have le: "length (filter (\<lambda>a. a = PassStep) sched) \<le> length xs"
      using Cons.prems(2) by (simp add: PassStep items)
    obtain rest counts2 s2 where
      i1: "run_schedule env sched (Looping xs counts1, c, s1) = (Looping rest counts2, c, s2)" and
      i2: "run_schedule env sched (Looping xs counts1, c, s1)
             = run_schedule env (filter (\<lambda>a. a = PassStep) sched) (Looping xs counts1, c, s1)"
      using Cons.IH [OF Cons.prems(1) le, of counts1 s1] by blast
    show ?thesis
      unfolding e1 e2 e3 using i1 i2 by blast
  qed
qed

lemma loop_completes:
  "run_schedule env (replicate (Suc (length items)) PassStep) (Looping items counts, c, s)
     = (Finished, release c,
        report_counts (fst (process_items env c items counts s))
          (snd (process_items env c items counts s)))"
proof (induction items arbitrary: counts s)
  case Nil
  then show ?case by simp
next
  case (Cons x xs)
  obtain p f where x: "x = (p, f)" by (cases x)
  obtain sc fc where counts: "counts = (sc, fc)" by (cases counts)
  obtain r s1 where cf: "convert_file env c p f s = (r, s1)"
    by (cases "convert_file env c p f s")
  show ?case
  proof (cases r)
    case (Inl e)
    then show ?thesis
      using Cons.IH [of "(sc, fc + 1)" "logging_error (ErrorConverting p e) s1"]
      by (simp add: x counts cf)
  next
    case (Inr u)
    then show ?thesis
      using Cons.IH [of "(sc + 1, fc)" s1]
      by (simp add: x counts cf)
  qed
qed

text \<open>
  Claim C2, as the code has it. When \<open>process_batch\<close> runs with the lock free on a
  non-empty pending set, its first step takes the lock, copies the pending set and
  clears it, and enters the loop over the copy with the lock held. Under every schedule of
  pass steps and calls of \<open>add_file\<close> that leaves the pass inside its loop, the converter is
  the same as when the loop began, lock held and pending set empty: every call of
  \<open>add_file\<close> made in between waited, the schedule did what its pass steps alone do, and a
  further call of \<open>add_file\<close> waits too. The lock is released only by the step that
  reports the counts, where the pass ends in the state \<open>process_batch\<close> returns; then the
  lock is free, the pending set is empty, and a call of \<open>add_file\<close> for a supported file
  puts its request into that fresh set.
\<close>

theorem pass_holds_lock:
  fixes env :: "('w, 'i) env" and s :: "'w io"
  assumes free: "\<not> processing_lock self"
    and nonempty: "pending_files self \<noteq> {}"
  shows "(let items = set_iter env (pending_files self);
              self1 = self\<lparr>processing_lock := True, pending_files := {}\<rparr>;
              s1 = logging_info (ProcessingBatch (card (pending_files self))) s
          in pass_step env (Waiting, self, s) = Some (Looping items (0, 0), self1, s1)
             \<and> processing_lock self1
             \<and> pending_files self1 = {}
             \<and> (\<forall>sched.
                   length (filter (\<lambda>a. a = PassStep) sched) \<le> length items
                   \<longrightarrow> (\<exists>rest counts s2.
                          run_schedule env sched (Looping items (0, 0), self1, s1)
                            = (Looping rest counts, self1, s2)
                        \<and> run_schedule env sched (Looping items (0, 0), self1, s1)
                            = run_schedule env (filter (\<lambda>a. a = PassStep) sched)
                                (Looping items (0, 0), self1, s1)
                        \<and> (\<forall>now p f. sys_step env (AddFile now p f)
                                        (Looping rest counts, self1, s2) = None)))
             \<and> (\<exists>s3. run_schedule env (replicate (Suc (length items)) PassStep)
                        (Looping items (0, 0), self1, s1) = (Finished, release self1, s3)
                    \<and> process_batch env (self, s) = Some (release self1, s3)
                    \<and> \<not> processing_lock (release self1)
                    \<and> pending_files (release self1) = {}
                    \<and> (\<forall>now p f. str_lower (path_suffix p) \<in> supported_formats \<longrightarrow>
                          (\<exists>c' s'. sys_step env (AddFile now p f) (Finished, release self1, s3)
                                      = Some (Finished, c', s')
                              \<and> pending_files c' = {(p, f)}))))"
proof -
  let ?items = "set_iter env (pending_files self)"
  let ?self1 = "self\<lparr>processing_lock := True, pending_files := {}\<rparr>"
  let ?s1 = "logging_info (ProcessingBatch (card (pending_files self))) s"
  let ?cfg = "(Looping ?items (0, 0), ?self1, ?s1)"
  let ?s3 = "report_counts (fst (process_items env ?self1 ?items (0, 0) ?s1))
               (snd (process_items env ?self1 ?items (0, 0) ?s1))"
  have a: "pass_step env (Waiting, self, s) = Some ?cfg"
    using free nonempty by (simp add: acquire_def capture_batch_def)
  have b: "processing_lock ?self1" "pending_files ?self1 = {}"
    by simp_all
  have c: "\<forall>sched.
               length (filter (\<lambda>a. a = PassStep) sched) \<le> length ?items
               \<longrightarrow> (\<exists>rest counts s2.
                      run_schedule env sched ?cfg = (Looping rest counts, ?self1, s2)
                    \<and> run_schedule env sched ?cfg
                        = run_schedule env (filter (\<lambda>a. a = PassStep) sched) ?cfg
                    \<and> (\<forall>now p f. sys_step env (AddFile now p f) (Looping rest counts, ?self1, s2)
                                    = None))"
  proof (intro allI impI)
    fix sched
    assume le: "length (filter (\<lambda>a. a = PassStep) sched) \<le> length ?items"
    obtain rest counts s2 where
      r1: "run_schedule env sched ?cfg = (Looping rest counts, ?self1, s2)" and
      r2: "run_schedule env sched ?cfg
             = run_schedule env (filter (\<lambda>a. a = PassStep) sched) ?cfg"
      using loop_interleaved [OF b(1) le, of env "(0, 0)" ?s1] by blast
    have r3: "\<forall>now p f. sys_step env (AddFile now p f) (Looping rest counts, ?self1, s2) = None"
      using add_file_blocked [OF b(1)] by blast
    from r1 r2 r3 show "\<exists>rest counts s2.
                      run_schedule env sched ?cfg = (Looping rest counts, ?self1, s2)
                    \<and> run_schedule env sched ?cfg
                        = run_schedule env (filter (\<lambda>a. a = PassStep) sched) ?cfg
                    \<and> (\<forall>now p f. sys_step env (AddFile now p f) (Looping rest counts, ?self1, s2)
                                    = None)"
      by blast
  qed
  have d1: "run_schedule env (replicate (Suc (length ?items)) PassStep) ?cfg
              = (Finished, release ?self1, ?s3)"
    by (rule loop_completes)
  have d2: "process_batch env (self, s) = Some (release ?self1, ?s3)"
    using free nonempty
    by (simp add: process_batch_def acquire_def process_batch_locked_def capture_batch_def
        split: prod.splits)
  have d3: "\<not> processing_lock (release ?self1)" "pending_files (release ?self1) = {}"
    by (simp_all add: release_def)
  have d4: "\<forall>now p f. str_lower (path_suffix p) \<in> supported_formats \<longrightarrow>
                      (\<exists>c' s'. sys_step env (AddFile now p f) (Finished, release ?self1, ?s3)
                                  = Some (Finished, c', s')
                          \<and> pending_files c' = {(p, f)})"
    using d3 by (simp add: add_file_free)
  have d: "\<exists>s3. run_schedule env (replicate (Suc (length ?items)) PassStep) ?cfg
                    = (Finished, release ?self1, s3)
                \<and> process_batch env (self, s) = Some (release ?self1, s3)
                \<and> \<not> processing_lock (release ?self1)
                \<and> pending_files (release ?self1) = {}
                \<and> (\<forall>now p f. str_lower (path_suffix p) \<in> supported_formats \<longrightarrow>
                      (\<exists>c' s'. sys_step env (AddFile now p f) (Finished, release ?self1, s3)
                                  = Some (Finished, c', s')
                          \<and> pending_files c' = {(p, f)}))"
    using d1 d2 d3 d4 by blast
  from a b c d show ?thesis
    unfolding Let_def by (intro conjI)
qed

theorem pass_holds_lock_witness:
  "\<not> processing_lock demo_batch
   \<and> pending_files demo_batch \<noteq> {}
   \<and> length (filter (\<lambda>a. a = PassStep) demo_schedule)
       \<le> length (set_iter demo_env (pending_files demo_batch))
   \<and> str_lower (path_suffix (Path [] ''photo.png'')) \<in> supported_formats
   \<and> pass_step demo_env (Waiting, demo_batch, demo_io)
       = Some (Looping (set_iter demo_env (pending_files demo_batch)) (0, 0), demo_looping,
               logging_info (ProcessingBatch (card (pending_files demo_batch))) demo_io)
   \<and> processing_lock demo_looping
   \<and> (\<exists>rest counts s2.
         run_schedule demo_env demo_schedule
           (Looping (set_iter demo_env (pending_files demo_batch)) (0, 0), demo_looping,
            logging_info (ProcessingBatch (card (pending_files demo_batch))) demo_io)
           = (Looping rest counts, demo_looping, s2)
       \<and> sys_step demo_env (AddFile 1 (Path [] ''photo.png'') None)
           (Looping rest counts, demo_looping, s2) = None)
   \<and> (\<exists>s3. process_batch demo_env (demo_batch, demo_io) = Some (release demo_looping, s3)
          \<and> (\<exists>c' s'. sys_step demo_env (AddFile 1 (Path [] ''photo.png'') None)
                         (Finished, release demo_looping, s3) = Some (Finished, c', s')
                 \<and> pending_files c' = {(Path [] ''photo.png'', None)}))"
proof -
  let ?items = "set_iter demo_env (pending_files demo_batch)"
  let ?photo = "Path [] ''photo.png''"
  let ?s1 = "logging_info (ProcessingBatch (card (pending_files demo_batch))) demo_io"
  have a: "\<not> processing_lock demo_batch"
    by code_simp
  have b: "pending_files demo_batch \<noteq> {}"
    by code_simp
  have c: "length (filter (\<lambda>a. a = PassStep) demo_schedule) \<le> length ?items"
    by code_simp
  have d: "str_lower (path_suffix ?photo) \<in> supported_formats"
    by code_simp
  note t = pass_holds_lock [OF a b, of demo_env demo_io, unfolded Let_def, folded demo_looping_def]
  note x1 = t [THEN conjunct1]
  note x2 = t [THEN conjunct2, THEN conjunct1]
  note x3 = t [THEN conjunct2, THEN conjunct2, THEN conjunct2, THEN conjunct1, THEN spec, THEN mp,
      OF c]
  note x4 = t [THEN conjunct2, THEN conjunct2, THEN conjunct2, THEN conjunct2]
  have w1: "\<exists>rest counts s2.
         run_schedule demo_env demo_schedule (Looping ?items (0, 0), demo_looping, ?s1)
           = (Looping rest counts, demo_looping, s2)
       \<and> sys_step demo_env (AddFile 1 ?photo None) (Looping rest counts, demo_looping, s2) = None"
  proof -
    from x3 obtain rest counts s2 where
      y1: "run_schedule demo_env demo_schedule (Looping ?items (0, 0), demo_looping, ?s1)
             = (Looping rest counts, demo_looping, s2)" and
      y3: "\<forall>now p f. sys_step demo_env (AddFile now p f)
                        (Looping rest counts, demo_looping, s2) = None"
      by (elim exE conjE)
    from y3 have y4: "sys_step demo_env (AddFile 1 ?photo None)
                        (Looping rest counts, demo_looping, s2) = None"
      by (elim allE)
    show ?thesis
      apply (rule exI [of _ rest])
      apply (rule exI [of _ counts])
      apply (rule exI [of _ s2])
      apply (rule conjI)
       apply (rule y1)
      apply (rule y4)
      done
  qed
  have w2: "\<exists>s3. process_batch demo_env (demo_batch, demo_io) = Some (release demo_looping, s3)
          \<and> (\<exists>c' s'. sys_step demo_env (AddFile 1 ?photo None)
                         (Finished, release demo_looping, s3) = Some (Finished, c', s')
                 \<and> pending_files c' = {(?photo, None)})"
  proof -
    from x4 obtain s3 where
      z2: "process_batch demo_env (demo_batch, demo_io) = Some (release demo_looping, s3)" and
      z5: "\<forall>now p f. str_lower (path_suffix p) \<in> supported_formats \<longrightarrow>
              (\<exists>c' s'. sys_step demo_env (AddFile now p f) (Finished, release demo_looping, s3)
                          = Some (Finished, c', s')
                  \<and> pending_files c' = {(p, f)})"
      by (elim exE conjE)
    note z6 = z5 [THEN spec, THEN spec, THEN spec, THEN mp, OF d]
    show ?thesis
      apply (rule exI [of _ s3])
      apply (rule conjI)
       apply (rule z2)
      apply (rule z6)
      done
  qed
  show ?thesis
    apply (rule conjI, rule a)
    apply (rule conjI, rule b)
    apply (rule conjI, rule c)
    apply (rule conjI, rule d)
    apply (rule conjI, rule x1)
    apply (rule conjI, rule x2)
    apply (rule conjI, rule w1)
    apply (rule w2)
    done
qed

text \<open>
  The claim as written fails. After the first item of the batch has been converted the
  pass is in its loop with the lock held; a call of \<open>add_file\<close> made there does not get
  past the lock, and the pass runs to the end of \<open>process_batch\<close> as if the call had not
  been made, with nothing added to the pending set.
\<close>

theorem pass_releases_lock_counterexample:
  "fst (run_schedule demo_env [PassStep, PassStep] (Waiting, demo_batch, demo_io))
     = Looping [(Path [] ''bad.wav'', None), (Path [] ''b.wav'', None)] (1, 0)
   \<and> processing_lock
       (fst (snd (run_schedule demo_env [PassStep, PassStep] (Waiting, demo_batch, demo_io))))
   \<and> sys_step demo_env (AddFile 0 (Path [] ''photo.png'') None)
       (run_schedule demo_env [PassStep, PassStep] (Waiting, demo_batch, demo_io)) = None
   \<and> pending_files
       (fst (snd (run_schedule demo_env
          [PassStep, PassStep, AddFile 0 (Path [] ''photo.png'') None]
          (Waiting, demo_batch, demo_io)))) = {}
   \<and> run_schedule demo_env
        [PassStep, PassStep, AddFile 0 (Path [] ''photo.png'') None, PassStep, PassStep, PassStep]
        (Waiting, demo_batch, demo_io)
       = run_schedule demo_env [PassStep, PassStep, PassStep, PassStep, PassStep]
           (Waiting, demo_batch, demo_io)
   \<and> fst (run_schedule demo_env [PassStep, PassStep, PassStep, PassStep, PassStep]
        (Waiting, demo_batch, demo_io)) = Finished
   \<and> snd (run_schedule demo_env [PassStep, PassStep, PassStep, PassStep, PassStep]
        (Waiting, demo_batch, demo_io))
       = the (process_batch demo_env (demo_batch, demo_io))"
  by code_simp

section \<open>A PNG file added without a format\<close>

lemma run_timers_none_due:
  assumes "\<forall>i \<in> set idxs. i < length (timers (fst st)) \<longrightarrow> \<not> due (timers (fst st) ! i)"
  shows "run_timers env due idxs st = Some ([], st)"
  using assms by (induction idxs) auto

lemma timeline_single:
  assumes free: "\<not> processing_lock self"
    and empty: "pending_files self = {}"
    and none: "timers self = []"
    and sup: "str_lower (path_suffix p) \<in> supported_formats"
  shows "\<exists>self'. timeline env [(t, p, f)] (self, s) =
           Some ([{(p, f)}], self',
                 snd (process_batch_locked env
                        (self\<lparr>pending_files := {(p, f)}, batch_timer := Some 0,
                              timers := [\<lparr>deadline = t + batch_wait_time self, finished = False\<rparr>],
                              processing_lock := True\<rparr>,
                         logging_info (AddedFileToBatch p f) s)))"
proof -
  have e: "elapse env t (self, s) = Some ([], self, s)"
    by (simp add: elapse_def none)
  have tm: "(case batch_timer self of None \<Rightarrow> timers self
             | Some i \<Rightarrow> timers (finish_timer i self)) = []"
    using none by (simp add: finish_timer_def split: option.splits)
  let ?c = "self\<lparr>pending_files := {(p, f)}, batch_timer := Some 0,
                 timers := [\<lparr>deadline = t + batch_wait_time self, finished = False\<rparr>]\<rparr>"
  let ?s = "logging_info (AddedFileToBatch p f) s"
  have a: "add_file t p f (self, s) = Some (?c, ?s)"
    using add_file_free [OF free sup, of t f s] by (simp add: tm empty none)
  have fc: "\<not> processing_lock ?c" using free by simp
  have d: "\<exists>self'. drain env (?c, ?s) =
             Some ([{(p, f)}], self',
               snd (process_batch_locked env (?c\<lparr>processing_lock := True\<rparr>, ?s)))"
    by (simp add: drain_def timer_run_def process_batch_free [OF fc])
  then show ?thesis
    by (auto simp: e a)
qed

text \<open>
  Claim C3, as the code has it. Adding a file whose extension is \<open>.png\<close> with no format to
  a fresh converter gives, once the timer has run, one batch holding that request.
  \<open>convert_file\<close> selects the default format of the image class, which is \<open>png\<close>; as
  this is the file's own format the conversion is skipped and counted as a success. No
  external call is made and the outside world is unchanged: the file is untouched and no
  file is produced. For every path of a recognised class, no format given means the
  default format of its class.
\<close>

theorem png_without_format_is_skipped:
  assumes png: "str_lower (path_suffix file_path) = ''.png''"
    and wf: "path_wf file_path"
    and free: "\<not> processing_lock self"
    and empty: "pending_files self = {}"
    and none: "timers self = []"
    and iter: "set_iter env {(file_path, None)} = [(file_path, None)]"
  shows "resolve_output_format file_path None = Some default_format
         \<and> default_format = ''png''
         \<and> convert_file env self file_path None s
             = (Inr (), logging_info (Skipping file_path) s)
         \<and> (\<exists>self' s'. timeline env [(t, file_path, None)] (self, s)
                          = Some ([{(file_path, None)}], self', s')
               \<and> calls s' = calls s \<and> world s' = world s
               \<and> (INFO, Skipping file_path) \<in> set (logged s')
               \<and> (INFO, SuccessfullyConverted 1) \<in> set (logged s'))
         \<and> (\<forall>q c. media_class_of q = Some c
               \<longrightarrow> resolve_output_format q None = Some (default_format_of c))"
proof -
  have img: "media_class_of file_path = Some ImageClass"
    by (simp add: media_class_of_def png image_formats_def)
  have sup: "str_lower (path_suffix file_path) \<in> supported_formats"
    using img media_class_supported [of file_path] by simp
  have ext: "path_suffix file_path \<noteq> []"
    using png by (auto simp: str_lower_def)
  have res: "resolve_output_format file_path None = Some default_format"
    using resolve_recognized [OF img, of None] by (simp add: falsy_def default_format_of_def)
  have "str_lower default_format = ''png''"
    by (simp add: default_format_def str_lower_def lower_char_unfold)
  then have same: "drop 1 (str_lower (path_suffix file_path)) = str_lower default_format"
    by (simp add: png)
  have skip: "\<And>c u. convert_file env c file_path None u
                       = (Inr (), logging_info (Skipping file_path) u)"
  proof -
    fix c u
    have len: "2 \<le> length (str_lower (path_suffix file_path))"
      by (simp add: png)
    have "set (str_lower default_format) \<inter> path_seps = {}"
      by (simp add: default_format_def str_lower_def lower_char_unfold path_seps_def)
    moreover have "str_lower default_format \<noteq> []"
      by (simp add: default_format_def str_lower_def)
    ultimately obtain q where
      q: "with_suffix file_path (CHR ''.'' # str_lower default_format) = Inr q"
      using with_suffix_ok path_suffix_name [OF ext] by blast
    show "convert_file env c file_path None u = (Inr (), logging_info (Skipping file_path) u)"
      using same by (simp add: convert_file_def res q Let_def)
  qed
  let ?c = "self\<lparr>pending_files := {(file_path, None)}, batch_timer := Some 0,
                 timers := [\<lparr>deadline = t + batch_wait_time self, finished = False\<rparr>],
                 processing_lock := True\<rparr>"
  let ?s = "logging_info (AddedFileToBatch file_path None) s"
  obtain self' where tl: "timeline env [(t, file_path, None)] (self, s) =
           Some ([{(file_path, None)}], self', snd (process_batch_locked env (?c, ?s)))"
    using timeline_single [OF free empty none sup, of env t None s] by blast
  have pbl: "snd (process_batch_locked env (?c, ?s))
               = logging_info (SuccessfullyConverted 1)
                   (logging_info (Skipping file_path)
                      (logging_info (ProcessingBatch 1) ?s))"
    by (simp add: process_batch_locked_def capture_batch_def iter skip report_counts_def)
  have tlp: "\<exists>self' s'. timeline env [(t, file_path, None)] (self, s)
                          = Some ([{(file_path, None)}], self', s')
               \<and> calls s' = calls s \<and> world s' = world s
               \<and> (INFO, Skipping file_path) \<in> set (logged s')
               \<and> (INFO, SuccessfullyConverted 1) \<in> set (logged s')"
    using tl by (simp add: pbl)
  have dflt: "\<forall>q c. media_class_of q = Some c
               \<longrightarrow> resolve_output_format q None = Some (default_format_of c)"
    by (simp add: resolve_recognized falsy_def)
  from res skip [of self s] tlp dflt show ?thesis
    by (simp add: default_format_def)
qed

theorem png_without_format_is_skipped_witness:
  "str_lower (path_suffix (Path [] ''photo.png'')) = ''.png''
   \<and> path_wf (Path [] ''photo.png'')
   \<and> \<not> processing_lock demo_converter
   \<and> pending_files demo_converter = {}
   \<and> timers demo_converter = []
   \<and> set_iter demo_env {(Path [] ''photo.png'', None)} = [(Path [] ''photo.png'', None)]
   \<and> media_class_of (Path [] ''a.wav'') = Some AudioClass
   \<and> resolve_output_format (Path [] ''a.wav'') None = Some (default_format_of AudioClass)
   \<and> convert_file demo_env demo_converter (Path [] ''photo.png'') None demo_io
       = (Inr (), logging_info (Skipping (Path [] ''photo.png'')) demo_io)
   \<and> (\<exists>self' s'. timeline demo_env [(0, Path [] ''photo.png'', None)] (demo_converter, demo_io)
                    = Some ([{(Path [] ''photo.png'', None)}], self', s')
          \<and> calls s' = calls demo_io)"
proof -
  have a: "str_lower (path_suffix (Path [] ''photo.png'')) = ''.png''"
    by code_simp
  have b: "path_wf (Path [] ''photo.png'')"
    by code_simp
  have c: "\<not> processing_lock demo_converter"
    by code_simp
  have d: "pending_files demo_converter = {}"
    by (simp add: demo_converter_def)
  have e: "timers demo_converter = []"
    by (simp add: demo_converter_def)
  have f: "set_iter demo_env {(Path [] ''photo.png'', None)} = [(Path [] ''photo.png'', None)]"
    by code_simp
  have g: "media_class_of (Path [] ''a.wav'') = Some AudioClass"
    by code_simp
  note t = png_without_format_is_skipped [OF a b c d e f, of demo_io 0]
  note t3 = t [THEN conjunct2, THEN conjunct2, THEN conjunct1]
  note t4 = t [THEN conjunct2, THEN conjunct2, THEN conjunct2, THEN conjunct1]
  note t5 = t [THEN conjunct2, THEN conjunct2, THEN conjunct2, THEN conjunct2]
  have h: "resolve_output_format (Path [] ''a.wav'') None = Some (default_format_of AudioClass)"
    using t5 g by simp
  from t4 obtain self' s' where
    j1: "timeline demo_env [(0, Path [] ''photo.png'', None)] (demo_converter, demo_io)
           = Some ([{(Path [] ''photo.png'', None)}], self', s')" and
    j2: "calls s' = calls demo_io"
    by (elim exE conjE)
  have j: "\<exists>self' s'. timeline demo_env [(0, Path [] ''photo.png'', None)]
                        (demo_converter, demo_io)
                    = Some ([{(Path [] ''photo.png'', None)}], self', s')
          \<and> calls s' = calls demo_io"
    using j1 j2 by (intro exI conjI)
  from a b c d e f g h t3 j show ?thesis by (intro conjI)
qed

text \<open>
  The claim as written fails for \<open>photo.png\<close>: the batch fires with the request, and no
  file is written.
\<close>

theorem png_without_format_counterexample:
  "fst (the (timeline demo_env [(0, Path [] ''photo.png'', None)] (demo_converter, demo_io)))
     = [{(Path [] ''photo.png'', None)}]
   \<and> calls (snd (snd (the (timeline demo_env [(0, Path [] ''photo.png'', None)]
        (demo_converter, demo_io))))) = []
   \<and> ImageSave (Path [] ''photo.png'') ''PNG'' None
       \<notin> set (calls (snd (snd (the (timeline demo_env [(0, Path [] ''photo.png'', None)]
             (demo_converter, demo_io))))))"
  by code_simp

section \<open>Debouncing\<close>


text \<open>A converter none of whose timers is waiting: time passing changes nothing.\<close>

lemma run_timers_all_finished:
  assumes "\<forall>tm \<in> set (timers self). finished tm"
    and "\<And>tm. due tm \<Longrightarrow> \<not> finished tm"
  shows "run_timers env due idxs (self, s) = Some ([], self, s)"
  using assms by (intro run_timers_none_due) (auto dest: nth_mem)













end
